theory Spec2Isabelle
  imports Complex_Main "HOL-Library.Multiset"
begin

text \<open>
  The program is the glue between a molecular viewer library and a host dashboard: message
  handlers for loading a structure, painting a residue range, marking residues with
  spheres, zooming, clearing and resetting, and a hover handler that reports the hovered
  residue. The repository holds it twice: the file with all the commands, which is the one
  modelled here, and a shorter \<^verbatim>\<open>src/main.ts\<close> whose cache and
  \<^verbatim>\<open>highlightDomains\<close> are the same text. In the shorter file
  \<^verbatim>\<open>initMolstar\<close> ends by painting the residues 200 to 300, and the hover handler
  is another one, modelled beside the first as \<open>hover_main\<close>.

  The library is not part of the program. Its state is visible here only as far as the
  program depends on it: the current structures, which the program reads, and whether the
  state tree has the node of the cartoon representation, without which
  \<^verbatim>\<open>plugin.build().to(cartoonRef)\<close> throws. What the program does to the library is
  kept as the list of calls made; every other call is taken to return normally.
\<close>

section \<open>JavaScript values used by the viewer glue\<close>

text \<open>
  A JavaScript number is NaN, one of the two infinities, or a finite value. Finite values
  are kept as real numbers (every double is one); the two zeros are not told apart, as
  neither \<^verbatim>\<open>Set\<close> nor the comparisons of the source tell them apart.
\<close>

datatype jsnumber = NaN | PosInfinity | NegInfinity | Fin real

text \<open>\<^verbatim>\<open>Number.isFinite(n)\<close> and \<^verbatim>\<open>isNaN(n)\<close> on a number.\<close>

fun isFinite :: "jsnumber \<Rightarrow> bool" where
  "isFinite (Fin q) = True"
| "isFinite n = False"

fun isNaN :: "jsnumber \<Rightarrow> bool" where
  "isNaN NaN = True"
| "isNaN n = False"

text \<open>
  The relational operators on numbers: every comparison with NaN is false.
  \<^verbatim>\<open>a >= b\<close> is \<open>js_le b a\<close>; \<^verbatim>\<open>a === b\<close> on numbers is \<open>js_eq a b\<close>.
\<close>

fun js_le :: "jsnumber \<Rightarrow> jsnumber \<Rightarrow> bool" where
  "js_le NaN b = False"
| "js_le a NaN = False"
| "js_le NegInfinity b = True"
| "js_le a PosInfinity = True"
| "js_le PosInfinity b = False"
| "js_le a NegInfinity = False"
| "js_le (Fin x) (Fin y) = (x \<le> y)"

fun js_eq :: "jsnumber \<Rightarrow> jsnumber \<Rightarrow> bool" where
  "js_eq NaN b = False"
| "js_eq a NaN = False"
| "js_eq a b = (a = b)"

text \<open>
  The \<^verbatim>\<open>positions\<close> argument of \<^verbatim>\<open>highlightResidueWithSphere\<close>: declared
  \<^verbatim>\<open>number[]\<close>, but the function accepts a bare number and arrays nested to any depth
  (the message handler itself wraps the message's value in one more array).
\<close>

datatype jsval = JNum jsnumber | JArr "jsval list"

section \<open>Cleaning the residue positions\<close>

text \<open>
  \<^verbatim>\<open>
  const flatten = (arr: any): any[] => {
    if (!Array.isArray(arr)) return [arr];
    return arr.reduce((acc: any[], v: any) => {
      if (Array.isArray(v)) return acc.concat(flatten(v));
      return acc.concat(v);
    }, []);
  };
  \<close>
  \<^verbatim>\<open>reduce\<close> is a left fold from the empty array.
\<close>

fun flatten :: "jsval \<Rightarrow> jsnumber list" where
  "flatten (JNum n) = [n]"
| "flatten (JArr arr) =
     foldl (\<lambda>acc v. case v of JArr _ \<Rightarrow> acc @ flatten v | JNum n \<Rightarrow> acc @ [n]) [] arr"

text \<open>
  \<^verbatim>\<open>
  .map((p: any) => { const n = Number(p);
                     return Number.isFinite(n) ? Math.floor(n) : null; })
  \<close>
  \<^verbatim>\<open>Number(p)\<close> is \<open>p\<close> itself on a number; \<^verbatim>\<open>Math.floor\<close> of a finite number is
  an integer.
\<close>

fun floorOrNull :: "jsnumber \<Rightarrow> int option" where
  "floorOrNull (Fin q) = Some \<lfloor>q\<rfloor>"
| "floorOrNull n = None"

text \<open>\<^verbatim>\<open>.filter((n): n is number => n !== null)\<close>\<close>

fun nonNull :: "int option list \<Rightarrow> int list" where
  "nonNull [] = []"
| "nonNull (None # ns) = nonNull ns"
| "nonNull (Some n # ns) = n # nonNull ns"

definition posNums :: "jsval \<Rightarrow> int list" where
  "posNums positions = nonNull (map floorOrNull (flatten positions))"

text \<open>
  \<^verbatim>\<open>Array.from(new Set(posNums))\<close>: a \<^verbatim>\<open>Set\<close> keeps its members in the order of
  their first insertion; \<open>seen\<close> is the set built so far.
\<close>

fun setFrom :: "int list \<Rightarrow> int list \<Rightarrow> int list" where
  "setFrom seen [] = seen"
| "setFrom seen (n # ns) =
     (if n \<in> set seen then setFrom seen ns else setFrom (seen @ [n]) ns)"

text \<open>
  \<^verbatim>\<open>const uniquePos = Array.from(new Set(posNums)).sort((a, b) => a - b);\<close>
  The comparator orders the integers ascending.
\<close>

definition uniquePos :: "jsval \<Rightarrow> int list" where
  "uniquePos positions = sort (setFrom [] (posNums positions))"

section \<open>Colour strings\<close>

text \<open>
  \<^verbatim>\<open>const hex = colorHex.startsWith("#") ? colorHex.slice(1) : colorHex;\<close>
\<close>

definition hexOf :: "string \<Rightarrow> string" where
  "hexOf colorHex = (if take 1 colorHex = ''#'' then drop 1 colorHex else colorHex)"

text \<open>
  \<^verbatim>\<open>parseInt(hex, 16)\<close> as the language defines it: leading white space is skipped,
  one sign is read, one \<^verbatim>\<open>0x\<close> or \<^verbatim>\<open>0X\<close> is skipped, and the longest run of
  hexadecimal digits that follows is the value; with no digit the result is NaN.
  A character stands for a code unit below 256, so the white space is TAB, LF, VT, FF, CR,
  SP and NBSP.
\<close>

definition isWhiteSpace :: "char \<Rightarrow> bool" where
  "isWhiteSpace c = (of_char c \<in> {9, 10, 11, 12, 13, 32, 160 :: nat})"

definition hexDigit :: "char \<Rightarrow> nat option" where
  "hexDigit c =
     (let n = of_char c :: nat in
      if 48 \<le> n \<and> n \<le> 57 then Some (n - 48)
      else if 97 \<le> n \<and> n \<le> 102 then Some (n - 87)
      else if 65 \<le> n \<and> n \<le> 70 then Some (n - 55)
      else None)"

definition isHexDigit :: "char \<Rightarrow> bool" where
  "isHexDigit c = (case hexDigit c of Some d \<Rightarrow> True | None \<Rightarrow> False)"

definition digitValue :: "char \<Rightarrow> nat" where
  "digitValue c = (case hexDigit c of Some d \<Rightarrow> d | None \<Rightarrow> 0)"

text \<open>
  The value of the digits becomes a double: exact below \<open>2 ^ 53\<close>, rounded to 53
  significant bits (ties to even) above, and infinite from \<open>2 ^ 1024\<close> on, for which
  \<open>toDouble\<close> answers \<open>None\<close>.
\<close>

fun bitLength :: "nat \<Rightarrow> nat" where
  "bitLength n = (if n = 0 then 0 else Suc (bitLength (n div 2)))"

declare bitLength.simps [simp del]

definition toDouble :: "nat \<Rightarrow> nat option" where
  "toDouble m =
     (if m < 2 ^ 53 then Some m
      else let e = bitLength m - 53; q = m div 2 ^ e; r = m mod 2 ^ e;
               q' = (if 2 ^ e < 2 * r \<or> (2 * r = 2 ^ e \<and> odd q) then q + 1 else q);
               v = q' * 2 ^ e
           in if 2 ^ 1024 \<le> v then None else Some v)"

definition parseInt16 :: "string \<Rightarrow> jsnumber" where
  "parseInt16 inputString =
     (let S = dropWhile isWhiteSpace inputString;
          negative = (take 1 S = ''-'');
          S1 = (if take 1 S = ''+'' \<or> take 1 S = ''-'' then drop 1 S else S);
          S2 = (if take 2 S1 = ''0x'' \<or> take 2 S1 = ''0X'' then drop 2 S1 else S1);
          Z = takeWhile isHexDigit S2
      in if Z = [] then NaN
         else case toDouble (foldl (\<lambda>m c. 16 * m + digitValue c) 0 Z) of
                None \<Rightarrow> if negative then NegInfinity else PosInfinity
              | Some v \<Rightarrow> Fin (if negative then - of_nat v else of_nat v))"

section \<open>Structures, selections and the calls made to the viewer library\<close>

text \<open>
  The viewer library is an opaque collaborator. A structure is kept as the list of its
  atoms with the three labels the queries of this program read; a selection bundle is the
  list of the indices of the selected atoms.
\<close>

record Atom =
  label_asym_id :: string
  label_seq_id :: int
  label_atom_id :: string

type_synonym Structure = "Atom list"

type_synonym Bundle = "nat list"

text \<open>
  \<^verbatim>\<open>plugin.managers.structure.hierarchy.current.structures\<close> is an array of structure
  references; a reference has a \<^verbatim>\<open>cell\<close>, whose \<^verbatim>\<open>obj\<close> may be undefined and
  otherwise has the structure as its \<^verbatim>\<open>data\<close>.
\<close>

record StateObject =
  data :: Structure

record StateObjectCell =
  obj :: "StateObject option"

record StructureRef =
  cell :: StateObjectCell

text \<open>
  \<^verbatim>\<open>atoms({ chainTest, residueTest })\<close> run on a structure and bundled by
  \<^verbatim>\<open>StructureElement.Bundle.fromSelection\<close>: the atoms that pass both tests, in the
  structure's order. A test that the caller leaves out accepts every atom.
\<close>

definition atoms :: "(Atom \<Rightarrow> bool) \<Rightarrow> (Atom \<Rightarrow> bool) \<Rightarrow> Structure \<Rightarrow> Bundle" where
  "atoms chainTest residueTest structure =
     filter (\<lambda>i. chainTest (structure ! i) \<and> residueTest (structure ! i)) [0..<length structure]"

text \<open>The cache entry: \<^verbatim>\<open>interface OverpaintLayer { bundle; color; clear }\<close>.\<close>

record OverpaintLayer =
  "bundle" :: Bundle
  color :: jsnumber
  clear :: bool

text \<open>
  The MolScript expression built by \<^verbatim>\<open>highlightResidueWithSphere\<close>:
  \<^verbatim>\<open>atomGroups({ 'chain-test': eq(label_asym_id, c), 'residue-test':
  has(set(...positions), label_seq_id), 'atom-test': eq(label_atom_id, a) })\<close>.
\<close>

datatype expression = atomGroups string "int list" string

text \<open>
  Representation parameters: those made by \<^verbatim>\<open>createStructureRepresentationParams\<close>
  from a structure and \<^verbatim>\<open>{ type, color, colorParams: { value }, size, sizeParams: { value } }\<close>,
  and the literal \<^verbatim>\<open>{ type: { name }, colorTheme: { name, params: { value } } }\<close>.
\<close>

datatype reprParams =
    createStructureRepresentationParams Structure string string jsnumber string nat
  | literalParams string string jsnumber

datatype transform =
    CreateGroup string
  | StructureSelectionFromExpression expression
  | StructureRepresentation3D reprParams
  | OverpaintStructureRepresentation3DFromBundle "OverpaintLayer list"

text \<open>
  A state builder is the list of its steps: \<^verbatim>\<open>.to(target)\<close>,
  \<^verbatim>\<open>.apply(transform, params, { ref, tags })\<close> and \<^verbatim>\<open>.delete(ref)\<close>.
\<close>

datatype target = ToRef string | ToCell StateObjectCell | ToPolymer

datatype buildStep =
    To target
  | Apply transform "string option" "string list"
  | Delete string

text \<open>
  The calls the program makes to the library, in the order it makes them. A builder is
  recorded when \<^verbatim>\<open>commit()\<close> is called on it, with the parameters' values at that
  moment.
\<close>

datatype libcall =
    Commit "buildStep list"
  | CameraReset
  | FocusLoci Bundle
  | HighlightLoci Bundle
  | PluginInit
  | InitViewer
  | HoverSubscribe
  | PluginClear
  | Download string
  | ParseTrajectory string
  | CreateModel
  | CreateStructure
  | TryCreateComponentStatic string

section \<open>Console, host and program state\<close>

datatype jsarg =
    Str string
  | IntArray "int list"
  | Number jsnumber
  | ShinyObject bool
  | Template "jsarg list"

datatype consoleEntry = Log "jsarg list" | Warn "jsarg list" | Error "jsarg list"

datatype inputValue = StringValue string | NumberValue int

text \<open>
  What can be thrown: a TypeError, for a property read of \<^verbatim>\<open>undefined\<close>, and the
  library's error for a builder sent to a ref that no node of the state tree has.
\<close>

datatype jserror = TypeError | NodeNotFound string

datatype outcome = Returned | Threw jserror

text \<open>
  \<open>plugin\<close>: whether the module variable \<^verbatim>\<open>plugin\<close> is set;
  \<open>overpaintLayers\<close>: the cache;
  \<open>structures\<close>: the library's current structures, which the program reads;
  \<open>calls\<close>: the calls made to the library so far;
  \<open>console\<close>: the console's lines;
  \<open>Shiny\<close>: whether \<^verbatim>\<open>window.Shiny\<close> is defined;
  \<open>inputs\<close>: the values sent to the host with \<^verbatim>\<open>setInputValue\<close>;
  \<open>MY_MODULE_NS\<close>: \<^verbatim>\<open>window.MY_MODULE_NS\<close>, possibly undefined;
  \<open>cartoon\<close>: whether the library's state tree has a node with the ref
  \<^verbatim>\<open>'cartoon-representation'\<close>.
\<close>

record world =
  plugin :: bool
  overpaintLayers :: "OverpaintLayer list"
  structures :: "StructureRef list"
  calls :: "libcall list"
  console :: "consoleEntry list"
  Shiny :: bool
  inputs :: "(string \<times> inputValue) list"
  MY_MODULE_NS :: "string option"
  cartoon :: bool

definition cartoonRef :: string where
  "cartoonRef = ''cartoon-representation''"

definition emit :: "consoleEntry \<Rightarrow> world \<Rightarrow> world" where
  "emit entry w = w\<lparr>console := console w @ [entry]\<rparr>"

definition call :: "libcall \<Rightarrow> world \<Rightarrow> world" where
  "call c w = w\<lparr>calls := calls w @ [c]\<rparr>"

text \<open>
  \<^verbatim>\<open>plugin.managers.structure.hierarchy.current.structures[0]?.cell.obj?.data\<close>
\<close>

definition currentStructureData :: "world \<Rightarrow> Structure option" where
  "currentStructureData w =
     (case structures w of
        [] \<Rightarrow> None
      | structCell # _ \<Rightarrow>
          (case obj (cell structCell) of None \<Rightarrow> None | Some ob \<Rightarrow> Some (data ob)))"

section \<open>The commands\<close>

text \<open>
  \<^verbatim>\<open>
  async function highlightDomains(plugin, residueStart, residueEnd, colorHex = "#ff0000") {
    const structure = plugin.managers.structure.hierarchy.current.structures[0]?.cell.obj?.data;
    if (!structure) { console.warn('No Structure loaded'); return; }
    const hex = colorHex.startsWith("#") ? colorHex.slice(1) : colorHex;
    const colorValue = parseInt(hex, 16);
    if (isNaN(colorValue)) { console.warn("Invalid color:", colorHex); return; }
    const query = atoms({ residueTest: ctx => {
        const seqId = StructureProperties.residue.label_seq_id(ctx.element);
        return seqId >= residueStart && seqId <= residueEnd; } });
    const selection = query(new QueryContext(structure));
    const bundle = StructureElement.Bundle.fromSelection(selection);
    overpaintLayers.push({ bundle, color: Color(colorValue), clear: false });
    await plugin.build().to(cartoonRef)
      .apply(StateTransforms.Representation.OverpaintStructureRepresentation3DFromBundle,
             {layers: overpaintLayers})
      .commit();
  }
  \<close>
  The layer is pushed before the builder is made: when the cartoon node is missing,
  \<^verbatim>\<open>.to(cartoonRef)\<close> throws with the layer cached and nothing committed.
\<close>

definition residueTest :: "jsnumber \<Rightarrow> jsnumber \<Rightarrow> Atom \<Rightarrow> bool" where
  "residueTest residueStart residueEnd a =
     (let seqId = Fin (of_int (label_seq_id a))
      in js_le residueStart seqId \<and> js_le seqId residueEnd)"

definition highlightDomains :: "jsnumber \<Rightarrow> jsnumber \<Rightarrow> string \<Rightarrow> world \<Rightarrow> outcome \<times> world" where
  "highlightDomains residueStart residueEnd colorHex w =
     (case currentStructureData w of
        None \<Rightarrow> (Returned, emit (Warn [Str ''No Structure loaded'']) w)
      | Some structure \<Rightarrow>
          (let colorValue = parseInt16 (hexOf colorHex) in
           if isNaN colorValue
           then (Returned, emit (Warn [Str ''Invalid color:'', Str colorHex]) w)
           else
             (let bundle = atoms (\<lambda>a. True) (residueTest residueStart residueEnd) structure;
                  w1 = w\<lparr>overpaintLayers := overpaintLayers w @
                         [\<lparr>bundle = bundle, color = colorValue, clear = False\<rparr>]\<rparr>
              in if \<not> cartoon w1 then (Threw (NodeNotFound cartoonRef), w1)
                 else
                   (Returned,
                    call (Commit [To (ToRef cartoonRef),
                            Apply (OverpaintStructureRepresentation3DFromBundle
                                     (overpaintLayers w1))
                              None []]) w1))))"

text \<open>
  \<^verbatim>\<open>highlightResidueWithSphere(plugin, positions, colorHex = '#ff0000')\<close>: the positions
  are cleaned and logged, the colour is parsed, and then
  \<^verbatim>\<open>
  const structCell = plugin.managers.structure.hierarchy.current.structures[0];
  const b = plugin.build().to(structCell.cell);
  const group = b.apply(StateTransforms.Misc.CreateGroup, { label: 'mutations' }, { ref: 'mutations' });
  const expression = MS.struct.generator.atomGroups({ ... });
  group.apply(StateTransforms.Model.StructureSelectionFromExpression, { expression })
       .apply(StateTransforms.Representation.StructureRepresentation3D,
              createStructureRepresentationParams(plugin, structCell.cell.obj.data,
                { type: 'ball-and-stick', color: 'uniform', colorParams: { value: Color(colorValue) },
                  size: 'uniform', sizeParams: { value: 10 } }),
              { tags: ['mutations-group'] });
  await b.commit();
  \<close>
  There is no optional chaining here: reading \<^verbatim>\<open>.cell\<close> of an undefined
  \<^verbatim>\<open>structCell\<close>, or \<^verbatim>\<open>.data\<close> of an undefined \<^verbatim>\<open>obj\<close>, throws a TypeError
  before anything is committed.
\<close>

definition highlightResidueWithSphere :: "jsval \<Rightarrow> string \<Rightarrow> world \<Rightarrow> outcome \<times> world" where
  "highlightResidueWithSphere positions colorHex w =
     (let uniq = uniquePos positions;
          w1 = emit (Log [Str ''cleaned integer positions:'', IntArray uniq]) w
      in if length uniq = 0
         then (Returned,
               emit (Warn [Str ''No valid positions after cleaning; aborting highlight.'']) w1)
         else
           (let colorValue = parseInt16 (hexOf colorHex) in
            if isNaN colorValue
            then (Returned, emit (Warn [Str ''Invalid color:'', Str colorHex]) w1)
            else
              (case structures w1 of
                 [] \<Rightarrow> (Threw TypeError, w1)
               | structCell # _ \<Rightarrow>
                   (case obj (cell structCell) of
                      None \<Rightarrow> (Threw TypeError, w1)
                    | Some ob \<Rightarrow>
                        (Returned,
                         call (Commit [To (ToCell (cell structCell)),
                                 Apply (CreateGroup ''mutations'') (Some ''mutations'') [],
                                 Apply (StructureSelectionFromExpression
                                          (atomGroups ''A'' uniq ''CA'')) None [],
                                 Apply (StructureRepresentation3D
                                          (createStructureRepresentationParams (data ob)
                                             ''ball-and-stick'' ''uniform'' colorValue
                                             ''uniform'' 10))
                                   None [''mutations-group'']]) w1)))))"

text \<open>
  \<^verbatim>\<open>
  export async function zoomToResidue(plugin, residueNumber, chainId = 'A') {
    const structure = plugin.managers.structure.hierarchy.current.structures[0]?.cell.obj?.data;
    if (!structure) { console.warn('No structure loaded'); return; }
    const query = atoms({
      chainTest: ctx => StructureProperties.chain.label_asym_id(ctx.element) === chainId,
      residueTest: ctx => StructureProperties.residue.label_seq_id(ctx.element) === residueNumber });
    const selection = query(new QueryContext(structure));
    const bundle = StructureElement.Bundle.fromSelection(selection);
    const loci = StructureElement.Bundle.toLoci(bundle, structure);
    plugin.managers.camera.focusLoci(loci);
    console.log(`Zoomed to residue ${residueNumber} in chain ${chainId}`);
    plugin.managers.interactivity.lociHighlights.highlight({ loci });
  }
  \<close>
  The logged template string is kept as its parts.
\<close>

definition zoomToResidue :: "jsnumber \<Rightarrow> string \<Rightarrow> world \<Rightarrow> outcome \<times> world" where
  "zoomToResidue residueNumber chainId w =
     (case currentStructureData w of
        None \<Rightarrow> (Returned, emit (Warn [Str ''No structure loaded'']) w)
      | Some structure \<Rightarrow>
          (let bundle = atoms (\<lambda>a. label_asym_id a = chainId)
                          (\<lambda>a. js_eq (Fin (of_int (label_seq_id a))) residueNumber) structure;
               w1 = call (FocusLoci bundle) w;
               w2 = emit (Log [Template [Str ''Zoomed to residue '', Number residueNumber,
                                         Str '' in chain '', Str chainId]]) w1
           in (Returned, call (HighlightLoci bundle) w2)))"

text \<open>
  \<^verbatim>\<open>
  async function clearOverlays(plugin) {
    overpaintLayers.length = 0;
    await plugin.build().to(cartoonRef)
      .apply(StateTransforms.Representation.OverpaintStructureRepresentation3DFromBundle, { layers: [] })
      .commit();
    plugin.build().delete('mutations').commit();
    console.log('Overpaint layers cleared');
  }
  async function clearPaint(plugin) {
    overpaintLayers.length = 0;
    await plugin.build().to(cartoonRef)
      .apply(StateTransforms.Representation.OverpaintStructureRepresentation3DFromBundle, { layers: [] })
      .commit();
  }
  async function clearSpheres(plugin) { plugin.build().delete('mutations').commit(); }
  export async function resetCamera(plugin) {
    plugin.managers.camera.reset();
    console.log('Camera view reset to show entire structure');
  }
  \<close>
  Both clear commands empty the cache first; with the cartoon node missing,
  \<^verbatim>\<open>.to(cartoonRef)\<close> then throws, before any commit and before the log line.
  Deleting a ref that no node has is not an error.
\<close>

definition clearOverlays :: "world \<Rightarrow> outcome \<times> world" where
  "clearOverlays w =
     (let w1 = w\<lparr>overpaintLayers := []\<rparr>
      in if \<not> cartoon w1 then (Threw (NodeNotFound cartoonRef), w1)
         else
           (let w2 = call (Commit [To (ToRef cartoonRef),
                             Apply (OverpaintStructureRepresentation3DFromBundle []) None []]) w1;
                w3 = call (Commit [Delete ''mutations'']) w2
            in (Returned, emit (Log [Str ''Overpaint layers cleared'']) w3)))"

definition clearPaint :: "world \<Rightarrow> outcome \<times> world" where
  "clearPaint w =
     (let w1 = w\<lparr>overpaintLayers := []\<rparr>
      in if \<not> cartoon w1 then (Threw (NodeNotFound cartoonRef), w1)
         else
           (Returned,
            call (Commit [To (ToRef cartoonRef),
                    Apply (OverpaintStructureRepresentation3DFromBundle []) None []]) w1))"

definition clearSpheres :: "world \<Rightarrow> outcome \<times> world" where
  "clearSpheres w = (Returned, call (Commit [Delete ''mutations'']) w)"

definition resetCamera :: "world \<Rightarrow> outcome \<times> world" where
  "resetCamera w =
     (Returned, emit (Log [Str ''Camera view reset to show entire structure'']) (call CameraReset w))"

section \<open>Loading a structure\<close>

text \<open>
  What the library answers during one run of \<^verbatim>\<open>initMolstar\<close>: the result of
  \<^verbatim>\<open>plugin.initViewer\<close>, the current structures once
  \<^verbatim>\<open>createStructure\<close> has run, and whether
  \<^verbatim>\<open>tryCreateComponentStatic(structureData, 'polymer')\<close> gave a component.
\<close>

record loadAnswers =
  viewerOk :: bool
  loaded :: "StructureRef list"
  polymerFound :: bool

text \<open>
  \<^verbatim>\<open>
  async function initMolstar(uniprot_id) {
    if (!plugin) {
      plugin = new PluginContext(MySpec);
      await plugin.init();
      const ok = await plugin.initViewer(canvas, parent);
      if (!ok) { console.error('Mol* viewer failed to initialize.'); return; }
      plugin.behaviors.interaction.hover.subscribe(e => { ... });
    }
    await plugin.clear();
    overpaintLayers.length = 0
    const data = await plugin.builders.data.download({ url: 'https://alphafold.ebi.ac.uk/files/AF-'
                   + uniprot_id + '-F1-model_v6.pdb' }, ...);
    const trajectory = await plugin.builders.structure.parseTrajectory(data, 'pdb');
    const structure = await plugin.builders.structure.createModel(trajectory);
    const structureData = await plugin.builders.structure.createStructure(structure, ...);
    const polymer = await plugin.builders.structure.tryCreateComponentStatic(structureData, 'polymer');
    if (!polymer) { console.warn('No polymer component found'); return; }
    await plugin.build().to(polymer)
      .apply(StateTransforms.Representation.StructureRepresentation3D,
             { type: { name: 'cartoon', params: {} },
               colorTheme: { name: 'uniform', params: { value: Color(0xbebebe) } } },
             { ref: cartoonRef })
      .commit();
    plugin.managers.camera.reset();
    console.log('initMolstar completed for', uniprot_id);
    console.log('Checking window.Shiny:');
    console.log('Checking window.Shiny:', window.Shiny);
  }
  \<close>
  A new \<^verbatim>\<open>PluginContext\<close> has no structure and no cartoon node, and
  \<^verbatim>\<open>plugin.clear()\<close> leaves the library without either; the commit with
  \<^verbatim>\<open>{ ref: cartoonRef }\<close> makes the cartoon node. The element lookups and the debugging assignments to
  \<^verbatim>\<open>window.plugin\<close> are left out. \<open>startViewer\<close> is the block under
  \<^verbatim>\<open>if (!plugin)\<close>; its boolean says whether \<^verbatim>\<open>initMolstar\<close> goes on.
\<close>

definition startViewer :: "loadAnswers \<Rightarrow> world \<Rightarrow> bool \<times> world" where
  "startViewer answers w =
     (if \<not> plugin w
      then
        (let w1 = call InitViewer
                    (call PluginInit (w\<lparr>plugin := True, structures := [], cartoon := False\<rparr>))
         in if \<not> viewerOk answers
            then (False, emit (Error [Str ''Mol* viewer failed to initialize.'']) w1)
            else (True, call HoverSubscribe w1))
      else (True, w))"

definition initMolstar :: "string \<Rightarrow> loadAnswers \<Rightarrow> world \<Rightarrow> outcome \<times> world" where
  "initMolstar uniprot_id answers w =
     (case startViewer answers w of
        (False, w1) \<Rightarrow> (Returned, w1)
      | (True, w1) \<Rightarrow>
          (let w2 = (call PluginClear w1)\<lparr>structures := [], cartoon := False\<rparr>;
               w3 = w2\<lparr>overpaintLayers := []\<rparr>;
               w4 = call (Download (''https://alphafold.ebi.ac.uk/files/AF-'' @ uniprot_id @
                                    ''-F1-model_v6.pdb'')) w3;
               w5 = call CreateModel (call (ParseTrajectory ''pdb'') w4);
               w6 = (call CreateStructure w5)\<lparr>structures := loaded answers\<rparr>;
               w7 = call (TryCreateComponentStatic ''polymer'') w6
           in if \<not> polymerFound answers
              then (Returned, emit (Warn [Str ''No polymer component found'']) w7)
              else
                (let w8 = (call (Commit [To ToPolymer,
                                   Apply (StructureRepresentation3D
                                            (literalParams ''cartoon'' ''uniform'' (Fin 12500670)))
                                     (Some cartoonRef) []]) w7)\<lparr>cartoon := True\<rparr>;
                     w9 = call CameraReset w8;
                     w10 = emit (Log [Str ''initMolstar completed for'', Str uniprot_id]) w9;
                     w11 = emit (Log [Str ''Checking window.Shiny:'']) w10
                 in (Returned,
                     emit (Log [Str ''Checking window.Shiny:'', ShinyObject (Shiny w11)]) w11))))"

section \<open>Hover events\<close>

text \<open>
  A hovered loci is a structure-element loci with its elements, or a loci of another kind.
  An element has a unit and an ordered set of indices into the unit's atoms; of the
  ordered set the program only asks \<^verbatim>\<open>OrderedSet.start\<close>, kept as the library's answer.
  The model's atomic hierarchy gives the residue index of an atom
  (\<^verbatim>\<open>residueAtomSegments.index\<close>), the component id of an atom and the sequence id of
  a residue (the columns' \<^verbatim>\<open>value\<close> functions). The last two fields are the
  text of what the two columns give for an undefined row, which only the shorter file can
  ask for.
\<close>

record AtomicHierarchy =
  residueAtomSegments_index :: "nat \<Rightarrow> nat"
  atoms_label_comp_id_value :: "nat \<Rightarrow> string"
  residues_label_seq_id_value :: "nat \<Rightarrow> int"
  atoms_label_comp_id_undefined :: string
  residues_label_seq_id_undefined :: string

record Model =
  atomicHierarchy :: AtomicHierarchy

record Unit =
  elements :: "nat list"
  model :: Model

record OrderedSet =
  start :: "nat option"

record LociElement =
  unit :: "Unit option"
  indices :: OrderedSet

datatype Loci = ElementLoci "LociElement list" | OtherLoci

text \<open>
  The decimal text of an integer, as a template string writes it. The library's sequence
  ids are 32-bit integers, far below the size at which the text of a number switches to
  exponent form.
\<close>

fun decimalDigits :: "nat \<Rightarrow> string" where
  "decimalDigits n =
     (if n < 10 then [''0123456789'' ! n]
      else decimalDigits (n div 10) @ [''0123456789'' ! (n mod 10)])"

declare decimalDigits.simps [simp del]

definition numberToString :: "int \<Rightarrow> string" where
  "numberToString i = (if i < 0 then CHR ''-'' # decimalDigits (nat (- i)) else decimalDigits (nat i))"

record ResidueInfo =
  aa :: string
  num :: int
  label :: string

text \<open>
  \<^verbatim>\<open>
  function getResidueInfo(loci: any): { aa: string, num: number, label: string } | undefined {
    if (!StructureElement.Loci.is(loci) || !loci.elements || loci.elements.length === 0) return;
    const e = loci.elements[0];
    if (!e.unit) return;
    const unit = e.unit;
    const localIndex = OrderedSet.start(e.indices);
    if (localIndex == null) return;
    const atomIndex = unit.elements[localIndex];
    if (atomIndex == null) return;
    const model = unit.model;
    const residueIndex = model.atomicHierarchy.residueAtomSegments.index[atomIndex];
    const compId = model.atomicHierarchy.atoms.label_comp_id.value[atomIndex] ??
                   model.atomicHierarchy.atoms.label_comp_id.value(atomIndex);
    const seqId = model.atomicHierarchy.residues.label_seq_id.value(residueIndex);
    return { aa: String(compId), num: Number(seqId), label: `${compId} ${seqId}` };
  }
  \<close>
  \<^verbatim>\<open>value\<close> is a function, so \<^verbatim>\<open>value[atomIndex]\<close> is undefined and
  \<^verbatim>\<open>compId\<close> is \<^verbatim>\<open>value(atomIndex)\<close>. Reading \<^verbatim>\<open>unit.elements\<close> past its end
  gives undefined, which the last guard catches.
\<close>

definition getResidueInfo :: "Loci \<Rightarrow> ResidueInfo option" where
  "getResidueInfo loci =
     (case loci of
        OtherLoci \<Rightarrow> None
      | ElementLoci es \<Rightarrow>
          (case es of
             [] \<Rightarrow> None
           | e # _ \<Rightarrow>
               (case unit e of
                  None \<Rightarrow> None
                | Some u \<Rightarrow>
                    (case start (indices e) of
                       None \<Rightarrow> None
                     | Some localIndex \<Rightarrow>
                         (if length (elements u) \<le> localIndex then None
                          else
                            (let atomIndex = elements u ! localIndex;
                                 h = atomicHierarchy (model u);
                                 residueIndex = residueAtomSegments_index h atomIndex;
                                 compId = atoms_label_comp_id_value h atomIndex;
                                 seqId = residues_label_seq_id_value h residueIndex
                             in Some \<lparr>aa = compId, num = seqId,
                                      label = compId @ '' '' @ numberToString seqId\<rparr>))))))"

text \<open>
  \<^verbatim>\<open>
  plugin.behaviors.interaction.hover.subscribe(e => {
    const loci = e.current.loci;
    if (!StructureElement.Loci.is(loci) || loci.elements.length === 0) return;
    const info = getResidueInfo(loci);
    if (!info) return;
    const ns = (window as any).MY_MODULE_NS as string;
    window.Shiny!.setInputValue(ns + 'resi_aa', info.aa, { priority: 'event' });
    window.Shiny!.setInputValue(ns + 'resi_num', info.num, { priority: 'event' });
    window.Shiny!.setInputValue(ns + 'resiinfo', info.label, { priority: 'event' });
  });
  \<close>
  Without \<^verbatim>\<open>window.Shiny\<close> the first \<^verbatim>\<open>setInputValue\<close> throws a TypeError.
\<close>

definition moduleNs :: "world \<Rightarrow> string" where
  "moduleNs w = (case MY_MODULE_NS w of None \<Rightarrow> ''undefined'' | Some s \<Rightarrow> s)"

definition hover :: "Loci \<Rightarrow> world \<Rightarrow> outcome \<times> world" where
  "hover loci w =
     (case loci of
        OtherLoci \<Rightarrow> (Returned, w)
      | ElementLoci es \<Rightarrow>
          (if length es = 0 then (Returned, w)
           else
             (case getResidueInfo loci of
                None \<Rightarrow> (Returned, w)
              | Some info \<Rightarrow>
                  (if \<not> Shiny w then (Threw TypeError, w)
                   else
                     (Returned,
                      w\<lparr>inputs := inputs w @
                          [(moduleNs w @ ''resi_aa'', StringValue (aa info)),
                           (moduleNs w @ ''resi_num'', NumberValue (num info)),
                           (moduleNs w @ ''resiinfo'', StringValue (label info))]\<rparr>)))))"

text \<open>
  The shorter file \<^verbatim>\<open>src/main.ts\<close> has its own pair:
  \<^verbatim>\<open>
  plugin.behaviors.interaction.hover.subscribe(e => {
    const loci = e.current.loci;
    if (loci.kind === 'element-loci') {
      const label = getResidueInfo(loci);
      if (label) {
        window.Shiny!.setInputValue('hoveredResidue', label, { priority: 'event' });
      }
    }
  });
  function getResidueInfo(loci: any): string | undefined {
    if (!StructureElement.Loci.is(loci) || loci.elements.length === 0) return;
    const e  = loci.elements[0];
    const unit = e.unit;
    const idx = OrderedSet.start(e.indices);
    const model = unit.model;
    const residueIndex = model.atomicHierarchy.residueAtomSegments.index[idx];
    const compId = model.atomicHierarchy.atoms.label_comp_id.value(idx);
    const seqId  = model.atomicHierarchy.residues.label_seq_id.value(residueIndex);
    return `${compId}_${seqId}`;
  }
  \<close>
  Three things differ from the pair above. The character between the two ids in the
  template, shown as \<^verbatim>\<open>_\<close> here, is U+00A0, a no-break space, where the other file
  has a plain space. The first
  index of the element, which counts within the unit, is used as it is for the atom's
  index in the model, where the other file looks it up in \<^verbatim>\<open>unit.elements\<close>. And
  nothing guards the element: \<^verbatim>\<open>unit.model\<close> of an undefined unit throws a
  TypeError, and an undefined first index reaches the columns, as does the undefined that
  reading \<^verbatim>\<open>index\<close> at it gives.
\<close>

definition getResidueInfo_main :: "Loci \<Rightarrow> jserror + string option" where
  "getResidueInfo_main loci =
     (case loci of
        OtherLoci \<Rightarrow> Inr None
      | ElementLoci es \<Rightarrow>
          (case es of
             [] \<Rightarrow> Inr None
           | e # _ \<Rightarrow>
               (case unit e of
                  None \<Rightarrow> Inl TypeError
                | Some u \<Rightarrow>
                    (let h = atomicHierarchy (model u);
                         compId = (case start (indices e) of
                                     None \<Rightarrow> atoms_label_comp_id_undefined h
                                   | Some idx \<Rightarrow> atoms_label_comp_id_value h idx);
                         seqId = (case start (indices e) of
                                    None \<Rightarrow> residues_label_seq_id_undefined h
                                  | Some idx \<Rightarrow>
                                      numberToString
                                        (residues_label_seq_id_value h
                                           (residueAtomSegments_index h idx)))
                     in Inr (Some (compId @ [CHR 0xA0] @ seqId))))))"

definition hover_main :: "Loci \<Rightarrow> world \<Rightarrow> outcome \<times> world" where
  "hover_main loci w =
     (case loci of
        OtherLoci \<Rightarrow> (Returned, w)
      | ElementLoci es \<Rightarrow>
          (case getResidueInfo_main loci of
             Inl err \<Rightarrow> (Threw err, w)
           | Inr None \<Rightarrow> (Returned, w)
           | Inr (Some l) \<Rightarrow>
               (if l = [] then (Returned, w)
                else if \<not> Shiny w then (Threw TypeError, w)
                else (Returned,
                      w\<lparr>inputs := inputs w @ [(''hoveredResidue'', StringValue l)]\<rparr>))))"

section \<open>Everything that can run\<close>

text \<open>
  The functions of the program, and the message handlers registered with the host. A
  handler warns and stops while \<^verbatim>\<open>plugin\<close> is unset, and fills in the default colour
  \<^verbatim>\<open>'#ff0000'\<close> and the default chain \<^verbatim>\<open>'A'\<close>. The commands are
  \<^verbatim>\<open>async\<close>: \<open>Threw\<close> stands for a rejected promise, and the outcome given for
  a handler is that of the command it starts.
\<close>

datatype command =
    InitMolstar string loadAnswers
  | HighlightDomains jsnumber jsnumber string
  | HighlightResidueWithSphere jsval string
  | ZoomToResidue jsnumber string
  | ClearOverlays
  | ClearPaint
  | ClearSpheres
  | ResetCamera
  | Hover Loci

fun run :: "command \<Rightarrow> world \<Rightarrow> outcome \<times> world" where
  "run (InitMolstar uniprot_id answers) w = initMolstar uniprot_id answers w"
| "run (HighlightDomains residueStart residueEnd colorHex) w =
     highlightDomains residueStart residueEnd colorHex w"
| "run (HighlightResidueWithSphere positions colorHex) w =
     highlightResidueWithSphere positions colorHex w"
| "run (ZoomToResidue residueNumber chainId) w = zoomToResidue residueNumber chainId w"
| "run ClearOverlays w = clearOverlays w"
| "run ClearPaint w = clearPaint w"
| "run ClearSpheres w = clearSpheres w"
| "run ResetCamera w = resetCamera w"
| "run (Hover loci) w = hover loci w"

datatype message =
    MsgInitMolstar string
  | MsgHighlightDomains jsnumber jsnumber "string option"
  | MsgHighlightResidueWithSphere jsval "string option"
  | MsgZoomToResidue jsnumber "string option"
  | MsgClearOverlays
  | MsgResetCamera
  | MsgClearPaint

definition orElse :: "string option \<Rightarrow> string \<Rightarrow> string" where
  "orElse v d = (case v of None \<Rightarrow> d | Some s \<Rightarrow> s)"

fun onMessage :: "loadAnswers \<Rightarrow> message \<Rightarrow> world \<Rightarrow> outcome \<times> world" where
  "onMessage answers (MsgInitMolstar uniprot_id) w = initMolstar uniprot_id answers w"
| "onMessage answers (MsgHighlightDomains residueStart residueEnd colorHex) w =
     (if \<not> plugin w then (Returned, emit (Warn [Str ''Mol* not ready'']) w)
      else highlightDomains residueStart residueEnd (orElse colorHex ''#ff0000'') w)"
| "onMessage answers (MsgHighlightResidueWithSphere positions colorHex) w =
     (if \<not> plugin w then (Returned, emit (Warn [Str ''Mol* not reaady'']) w)
      else highlightResidueWithSphere (JArr [positions]) (orElse colorHex ''#ff0000'') w)"
| "onMessage answers (MsgZoomToResidue residueNumber chainId) w =
     (if \<not> plugin w then (Returned, emit (Warn [Str ''Mol* not ready'']) w)
      else zoomToResidue residueNumber (orElse chainId ''A'') w)"
| "onMessage answers MsgClearOverlays w =
     (if \<not> plugin w
      then (Returned, emit (Warn [Str ''Mol* plugin not ready cannot clear overlays'']) w)
      else clearOverlays w)"
| "onMessage answers MsgResetCamera w =
     (if \<not> plugin w
      then (Returned, emit (Warn [Str ''Mol* plugin not ready cannot reset camera'']) w)
      else resetCamera w)"
| "onMessage answers MsgClearPaint w =
     (if \<not> plugin w
      then (Returned, emit (Warn [Str ''Mol* plugin not ready cannot clear overlays'']) w)
      else clearPaint w)"

section \<open>Concrete worlds on which the commands are evaluated\<close>

definition exampleStructure :: Structure where
  "exampleStructure =
     [\<lparr>label_asym_id = ''A'', label_seq_id = 1, label_atom_id = ''CA''\<rparr>,
      \<lparr>label_asym_id = ''A'', label_seq_id = 2, label_atom_id = ''CA''\<rparr>,
      \<lparr>label_asym_id = ''A'', label_seq_id = 3, label_atom_id = ''CA''\<rparr>]"

text \<open>The viewer is up and no structure is loaded.\<close>

definition emptyWorld :: world where
  "emptyWorld =
     \<lparr>plugin = True, overpaintLayers = [], structures = [], calls = [], console = [],
      Shiny = True, inputs = [], MY_MODULE_NS = Some ''viewer-'', cartoon = False\<rparr>"

text \<open>The example structure is current, and no cartoon was made of it.\<close>

definition bareWorld :: world where
  "bareWorld = emptyWorld\<lparr>structures := [\<lparr>cell = \<lparr>obj = Some \<lparr>data = exampleStructure\<rparr>\<rparr>\<rparr>]\<rparr>"

text \<open>The example structure is loaded, with its cartoon.\<close>

definition loadedWorld :: world where
  "loadedWorld = bareWorld\<lparr>cartoon := True\<rparr>"

text \<open>The example structure is loaded and one layer is cached.\<close>

definition paintedWorld :: world where
  "paintedWorld =
     loadedWorld\<lparr>overpaintLayers := [\<lparr>bundle = [0], color = Fin 255, clear = False\<rparr>]\<rparr>"

text \<open>
  The example structure is current without a cartoon, and its residue 2 has been marked
  with a sphere.
\<close>

definition spheresWorld :: world where
  "spheresWorld = snd (highlightResidueWithSphere (JArr [JNum (Fin 2)]) ''#ff0000'' bareWorld)"

text \<open>
  A model of glycines with two atoms each, numbered from 102: the atoms 4 and 5 are
  residue 104. \<open>wholeUnit\<close> is the unit of a structure with one chain, whose atoms are
  numbered as the model's; \<open>exampleUnit\<close> holds the atoms 4 and 5 alone, as the unit
  of a later chain would.
\<close>

definition exampleModel :: Model where
  "exampleModel =
     \<lparr>atomicHierarchy =
        \<lparr>residueAtomSegments_index = (\<lambda>atomIndex. atomIndex div 2),
         atoms_label_comp_id_value = (\<lambda>atomIndex. ''GLY''),
         residues_label_seq_id_value = (\<lambda>residueIndex. int residueIndex + 102),
         atoms_label_comp_id_undefined = ''undefined'',
         residues_label_seq_id_undefined = ''undefined''\<rparr>\<rparr>"

definition wholeUnit :: Unit where
  "wholeUnit = \<lparr>elements = [0, 1, 2, 3, 4, 5], model = exampleModel\<rparr>"

definition exampleUnit :: Unit where
  "exampleUnit = \<lparr>elements = [4, 5], model = exampleModel\<rparr>"

section \<open>Properties of the cleaning step\<close>

lemma foldl_flatten_acc:
  "foldl (\<lambda>acc v. case v of JArr _ \<Rightarrow> acc @ flatten v | JNum n \<Rightarrow> acc @ [n]) acc arr =
   acc @ concat (map flatten arr)"
proof (induction arr arbitrary: acc)
  case Nil
  show ?case by simp
next
  case (Cons v arr)
  show ?case
    by (cases v) (simp_all add: Cons.IH del: flatten.simps(2))
qed

lemma flatten_JArr: "flatten (JArr arr) = concat (map flatten arr)"
  using foldl_flatten_acc [of "[]" arr] by simp

lemma set_nonNull: "set (nonNull ns) = {n. Some n \<in> set ns}"
  by (induction ns rule: nonNull.induct) auto

lemma floorOrNull_Some: "floorOrNull p = Some n \<longleftrightarrow> (\<exists>q. p = Fin q \<and> n = \<lfloor>q\<rfloor>)"
  by (cases p) auto

lemma set_posNums: "set (posNums positions) = {\<lfloor>q\<rfloor> | q. Fin q \<in> set (flatten positions)}"
proof -
  have "Some n \<in> floorOrNull ` A \<longleftrightarrow> (\<exists>q. n = \<lfloor>q\<rfloor> \<and> Fin q \<in> A)" for n A
  proof
    assume "Some n \<in> floorOrNull ` A"
    then obtain p where "p \<in> A" and "floorOrNull p = Some n"
      by (metis imageE)
    then show "\<exists>q. n = \<lfloor>q\<rfloor> \<and> Fin q \<in> A"
      by (auto simp: floorOrNull_Some)
  next
    assume "\<exists>q. n = \<lfloor>q\<rfloor> \<and> Fin q \<in> A"
    then obtain q where "n = \<lfloor>q\<rfloor>" and "Fin q \<in> A"
      by blast
    then have "floorOrNull (Fin q) = Some n"
      by simp
    with \<open>Fin q \<in> A\<close> show "Some n \<in> floorOrNull ` A"
      by (metis imageI)
  qed
  then show ?thesis
    by (simp add: posNums_def set_nonNull)
qed

lemma set_setFrom: "set (setFrom seen ns) = set seen \<union> set ns"
  by (induction seen ns rule: setFrom.induct) auto

lemma distinct_setFrom: "distinct seen \<Longrightarrow> distinct (setFrom seen ns)"
  by (induction seen ns rule: setFrom.induct) auto

lemma uniquePos_sorted_list_of_set:
  "uniquePos positions = sorted_list_of_set (set (posNums positions))"
proof -
  have "distinct (setFrom [] (posNums positions))"
    by (simp add: distinct_setFrom)
  then have "sort (setFrom [] (posNums positions)) =
      sorted_list_of_set (set (setFrom [] (posNums positions)))"
    by (simp add: sorted_list_of_set_sort_remdups distinct_remdups_id)
  then show ?thesis
    by (simp add: uniquePos_def set_setFrom)
qed

lemma distinct_uniquePos: "distinct (uniquePos positions)"
  by (simp add: uniquePos_sorted_list_of_set)

lemma sorted_uniquePos: "sorted (uniquePos positions)"
  by (simp add: uniquePos_sorted_list_of_set)

lemma set_uniquePos: "set (uniquePos positions) = {\<lfloor>q\<rfloor> | q. Fin q \<in> set (flatten positions)}"
proof -
  have "set (uniquePos positions) = set (posNums positions)"
    by (simp add: uniquePos_sorted_list_of_set)
  then show ?thesis
    by (simp only: set_posNums)
qed

lemma highlightResidueWithSphere_no_positions:
  assumes "uniquePos positions = []"
  shows "highlightResidueWithSphere positions colorHex w =
     (Returned,
      w\<lparr>console := console w @
         [Log [Str ''cleaned integer positions:'', IntArray []],
          Warn [Str ''No valid positions after cleaning; aborting highlight.'']]\<rparr>)"
  using assms by (simp add: highlightResidueWithSphere_def emit_def)

lemma highlightResidueWithSphere_calls:
  "calls (snd (highlightResidueWithSphere positions colorHex w)) = calls w \<or>
   (\<exists>c params. calls (snd (highlightResidueWithSphere positions colorHex w)) =
      calls w @
        [Commit [To (ToCell c),
           Apply (CreateGroup ''mutations'') (Some ''mutations'') [],
           Apply (StructureSelectionFromExpression
                    (atomGroups ''A'' (uniquePos positions) ''CA'')) None [],
           Apply (StructureRepresentation3D params) None [''mutations-group'']]])"
  by (simp add: highlightResidueWithSphere_def emit_def call_def Let_def
      split: list.splits option.splits)

lemma highlightResidueWithSphere_commits:
  assumes "uniquePos positions \<noteq> []"
    and "\<not> isNaN (parseInt16 (hexOf colorHex))"
    and "structures w = structCell # others"
    and "obj (cell structCell) = Some ob"
  shows "highlightResidueWithSphere positions colorHex w =
     (Returned,
      w\<lparr>console := console w @
           [Log [Str ''cleaned integer positions:'', IntArray (uniquePos positions)]],
         calls := calls w @
           [Commit [To (ToCell (cell structCell)),
              Apply (CreateGroup ''mutations'') (Some ''mutations'') [],
              Apply (StructureSelectionFromExpression
                       (atomGroups ''A'' (uniquePos positions) ''CA'')) None [],
              Apply (StructureRepresentation3D
                       (createStructureRepresentationParams (data ob)
                          ''ball-and-stick'' ''uniform'' (parseInt16 (hexOf colorHex))
                          ''uniform'' 10))
                None [''mutations-group'']]]\<rparr>)"
  using assms by (simp add: highlightResidueWithSphere_def emit_def call_def Let_def)

section \<open>Colours that parse and colours that do not\<close>

lemma hexOf_zz: "parseInt16 (hexOf ''#zz'') = NaN"
  by (simp add: parseInt16_def hexOf_def isWhiteSpace_def isHexDigit_def hexDigit_def)

lemma hexOf_red: "parseInt16 (hexOf ''#ff0000'') = Fin 16711680"
  by (simp add: parseInt16_def hexOf_def isWhiteSpace_def isHexDigit_def hexDigit_def
      digitValue_def toDouble_def)

lemma currentStructureData_paintedWorld:
  "currentStructureData paintedWorld = Some exampleStructure"
  by (simp add: currentStructureData_def paintedWorld_def loadedWorld_def bareWorld_def
      emptyWorld_def)

lemma currentStructureData_bareWorld:
  "currentStructureData bareWorld = Some exampleStructure"
  by (simp add: currentStructureData_def bareWorld_def emptyWorld_def)

lemma cartoon_worlds:
  "\<not> cartoon emptyWorld" "\<not> cartoon bareWorld" "cartoon loadedWorld" "cartoon paintedWorld"
  by (simp_all add: paintedWorld_def loadedWorld_def bareWorld_def emptyWorld_def)

section \<open>What a call of highlightDomains does\<close>

lemma highlightDomains_pushes:
  assumes "currentStructureData w = Some structure"
    and "\<not> isNaN (parseInt16 (hexOf colorHex))"
  shows "overpaintLayers (snd (highlightDomains residueStart residueEnd colorHex w)) =
     overpaintLayers w @
       [\<lparr>bundle = atoms (\<lambda>a. True) (residueTest residueStart residueEnd) structure,
         color = parseInt16 (hexOf colorHex), clear = False\<rparr>]"
  using assms by (simp add: highlightDomains_def call_def Let_def)

lemma highlightDomains_paints:
  assumes "currentStructureData w = Some structure"
    and "\<not> isNaN (parseInt16 (hexOf colorHex))"
    and "cartoon w"
  shows "highlightDomains residueStart residueEnd colorHex w =
     (Returned,
      w\<lparr>overpaintLayers := overpaintLayers w @
           [\<lparr>bundle = atoms (\<lambda>a. True) (residueTest residueStart residueEnd) structure,
             color = parseInt16 (hexOf colorHex), clear = False\<rparr>],
         calls := calls w @
           [Commit [To (ToRef cartoonRef),
              Apply (OverpaintStructureRepresentation3DFromBundle
                (overpaintLayers w @
                 [\<lparr>bundle = atoms (\<lambda>a. True) (residueTest residueStart residueEnd) structure,
                   color = parseInt16 (hexOf colorHex), clear = False\<rparr>])) None []]]\<rparr>)"
  using assms by (simp add: highlightDomains_def call_def Let_def)

lemma highlightDomains_without_cartoon:
  assumes "currentStructureData w = Some structure"
    and "\<not> isNaN (parseInt16 (hexOf colorHex))"
    and "\<not> cartoon w"
  shows "highlightDomains residueStart residueEnd colorHex w =
     (Threw (NodeNotFound cartoonRef),
      w\<lparr>overpaintLayers := overpaintLayers w @
           [\<lparr>bundle = atoms (\<lambda>a. True) (residueTest residueStart residueEnd) structure,
             color = parseInt16 (hexOf colorHex), clear = False\<rparr>]\<rparr>)"
  using assms by (simp add: highlightDomains_def Let_def)

lemma highlightDomains_calls:
  "calls (snd (highlightDomains residueStart residueEnd colorHex w)) = calls w \<or>
   calls (snd (highlightDomains residueStart residueEnd colorHex w)) =
     calls w @
       [Commit [To (ToRef cartoonRef),
          Apply (OverpaintStructureRepresentation3DFromBundle
                   (overpaintLayers (snd (highlightDomains residueStart residueEnd colorHex w))))
            None []]]"
  by (simp add: highlightDomains_def emit_def call_def Let_def split: option.splits)

lemma highlightDomains_aborts:
  assumes "currentStructureData w = None \<or> isNaN (parseInt16 (hexOf colorHex))"
  shows "\<exists>args. highlightDomains residueStart residueEnd colorHex w =
     (Returned, w\<lparr>console := console w @ [Warn args]\<rparr>)"
  using assms by (auto simp: highlightDomains_def emit_def Let_def split: option.splits)



lemma sorted_atoms: "sorted (atoms chainOk residueOk s)"
  by (simp add: atoms_def sorted_wrt_filter)

lemma atoms_exampleStructure_2_3:
  "atoms (\<lambda>a. True) (residueTest (Fin 2) (Fin 3)) exampleStructure = [1, 2]"
  by (simp add: atoms_def residueTest_def exampleStructure_def upt_rec)

section \<open>What the clear and reset commands do\<close>

lemma clearPaint_with_cartoon:
  assumes "cartoon w"
  shows "clearPaint w =
     (Returned,
      w\<lparr>overpaintLayers := [],
        calls := calls w @
          [Commit [To (ToRef cartoonRef),
             Apply (OverpaintStructureRepresentation3DFromBundle []) None []]]\<rparr>)"
  using assms by (simp add: clearPaint_def call_def)

lemma clearOverlays_with_cartoon:
  assumes "cartoon w"
  shows "clearOverlays w =
     (Returned,
      w\<lparr>overpaintLayers := [],
        calls := calls w @
          [Commit [To (ToRef cartoonRef),
             Apply (OverpaintStructureRepresentation3DFromBundle []) None []],
           Commit [Delete ''mutations'']],
        console := console w @ [Log [Str ''Overpaint layers cleared'']]\<rparr>)"
  using assms by (simp add: clearOverlays_def call_def emit_def)

lemma clear_without_cartoon:
  assumes "\<not> cartoon w"
  shows "clearPaint w = (Threw (NodeNotFound cartoonRef), w\<lparr>overpaintLayers := []\<rparr>)"
    and "clearOverlays w = (Threw (NodeNotFound cartoonRef), w\<lparr>overpaintLayers := []\<rparr>)"
  using assms by (simp_all add: clearPaint_def clearOverlays_def)

lemma clear_cache:
  "overpaintLayers (snd (clearPaint w)) = []" "overpaintLayers (snd (clearOverlays w)) = []"
  by (simp_all add: clearPaint_def clearOverlays_def call_def emit_def Let_def)

lemma resetCamera_eq:
  "resetCamera w =
     (Returned,
      w\<lparr>calls := calls w @ [CameraReset],
        console := console w @ [Log [Str ''Camera view reset to show entire structure'']]\<rparr>)"
  by (simp add: resetCamera_def call_def emit_def)

section \<open>When the cartoon node is there\<close>

lemma initMolstar_cartoon:
  assumes "plugin w"
  shows "cartoon (snd (initMolstar uniprot_id answers w)) = polymerFound answers"
    and "structures (snd (initMolstar uniprot_id answers w)) = loaded answers"
  using assms
  by (simp_all add: initMolstar_def startViewer_def call_def emit_def Let_def)

lemma clearPaint_and_clearOverlays_frame:
  assumes "cartoon w"
  shows "clearPaint w =
     (Returned,
      w\<lparr>overpaintLayers := [],
        calls := calls w @
          [Commit [To (ToRef cartoonRef),
             Apply (OverpaintStructureRepresentation3DFromBundle []) None []]]\<rparr>) \<and>
   clearOverlays w =
     (Returned,
      w\<lparr>overpaintLayers := [],
        calls := calls w @
          [Commit [To (ToRef cartoonRef),
             Apply (OverpaintStructureRepresentation3DFromBundle []) None []],
           Commit [Delete ''mutations'']],
        console := console w @ [Log [Str ''Overpaint layers cleared'']]\<rparr>)"
  using clearPaint_with_cartoon [OF assms] clearOverlays_with_cartoon [OF assms] by simp

section \<open>The cache under each command\<close>

lemma overpaintLayers_emit [simp]: "overpaintLayers (emit entry w) = overpaintLayers w"
  by (simp add: emit_def)

lemma overpaintLayers_call [simp]: "overpaintLayers (call c w) = overpaintLayers w"
  by (simp add: call_def)

lemma highlightDomains_cache:
  "overpaintLayers (snd (highlightDomains residueStart residueEnd colorHex w)) = overpaintLayers w \<or>
   (\<exists>layer. overpaintLayers (snd (highlightDomains residueStart residueEnd colorHex w)) =
      overpaintLayers w @ [layer])"
  by (simp add: highlightDomains_def Let_def split: option.splits)

lemma highlightResidueWithSphere_cache:
  "overpaintLayers (snd (highlightResidueWithSphere positions colorHex w)) = overpaintLayers w"
  by (simp add: highlightResidueWithSphere_def Let_def split: list.splits option.splits)

lemma zoomToResidue_cache:
  "overpaintLayers (snd (zoomToResidue residueNumber chainId w)) = overpaintLayers w"
  by (simp add: zoomToResidue_def Let_def split: option.splits)

lemma hover_cache: "overpaintLayers (snd (hover loci w)) = overpaintLayers w"
  by (simp add: hover_def split: Loci.splits option.splits)

lemma startViewer_cache: "overpaintLayers (snd (startViewer answers w)) = overpaintLayers w"
  by (simp add: startViewer_def Let_def)

lemma initMolstar_cache:
  "overpaintLayers (snd (initMolstar uniprot_id answers w)) = overpaintLayers w \<or>
   overpaintLayers (snd (initMolstar uniprot_id answers w)) = []"
proof (cases "startViewer answers w")
  case (Pair continue w1)
  with startViewer_cache [of answers w] have "overpaintLayers w1 = overpaintLayers w"
    by simp
  with Pair show ?thesis
    by (cases continue) (simp_all add: initMolstar_def Let_def)
qed

lemma run_cache:
  "overpaintLayers (snd (run c w)) = overpaintLayers w \<or>
   overpaintLayers (snd (run c w)) = [] \<or>
   (\<exists>layer. overpaintLayers (snd (run c w)) = overpaintLayers w @ [layer])"
proof (cases c)
  case (InitMolstar uniprot_id answers)
  with initMolstar_cache [of uniprot_id answers w] show ?thesis by auto
next
  case (HighlightDomains residueStart residueEnd colorHex)
  with highlightDomains_cache [of residueStart residueEnd colorHex w] show ?thesis by auto
next
  case (HighlightResidueWithSphere positions colorHex)
  then show ?thesis by (simp add: highlightResidueWithSphere_cache)
next
  case (ZoomToResidue residueNumber chainId)
  then show ?thesis by (simp add: zoomToResidue_cache)
next
  case ClearOverlays
  then show ?thesis by (simp add: clear_cache)
next
  case ClearPaint
  then show ?thesis by (simp add: clear_cache)
next
  case ClearSpheres
  then show ?thesis by (simp add: clearSpheres_def)
next
  case ResetCamera
  then show ?thesis by (simp add: resetCamera_def)
next
  case (Hover loci)
  then show ?thesis by (simp add: hover_cache)
qed

lemma onMessage_cache:
  "overpaintLayers (snd (onMessage answers m w)) = overpaintLayers w \<or>
   overpaintLayers (snd (onMessage answers m w)) = [] \<or>
   (\<exists>layer. overpaintLayers (snd (onMessage answers m w)) = overpaintLayers w @ [layer])"
proof (cases m)
  case (MsgInitMolstar uniprot_id)
  with initMolstar_cache [of uniprot_id answers w] show ?thesis by auto
next
  case (MsgHighlightDomains residueStart residueEnd colorHex)
  with highlightDomains_cache [of residueStart residueEnd "orElse colorHex ''#ff0000''" w]
  show ?thesis by auto
next
  case (MsgHighlightResidueWithSphere positions colorHex)
  then show ?thesis by (simp add: highlightResidueWithSphere_cache)
next
  case (MsgZoomToResidue residueNumber chainId)
  then show ?thesis by (simp add: zoomToResidue_cache)
next
  case MsgClearOverlays
  then show ?thesis by (simp add: clear_cache)
next
  case MsgResetCamera
  then show ?thesis by (simp add: resetCamera_def)
next
  case MsgClearPaint
  then show ?thesis by (simp add: clear_cache)
qed

section \<open>Which commands can throw\<close>

lemma highlightResidueWithSphere_throws_iff:
  "fst (highlightResidueWithSphere positions colorHex w) = Threw TypeError \<longleftrightarrow>
     uniquePos positions \<noteq> [] \<and> \<not> isNaN (parseInt16 (hexOf colorHex)) \<and>
     currentStructureData w = None"
  by (auto simp: highlightResidueWithSphere_def currentStructureData_def emit_def Let_def
      split: list.splits option.splits)

lemma outcomes:
  "fst (zoomToResidue residueNumber chainId w) = Returned"
  "fst (resetCamera w) = Returned"
  "fst (clearSpheres w) = Returned"
  "fst (clearPaint w) = Returned \<longleftrightarrow> cartoon w"
  "fst (clearOverlays w) = Returned \<longleftrightarrow> cartoon w"
  "fst (highlightDomains residueStart residueEnd colorHex w) = Returned \<longleftrightarrow>
     currentStructureData w = None \<or> isNaN (parseInt16 (hexOf colorHex)) \<or> cartoon w"
  by (auto simp: zoomToResidue_def resetCamera_def clearSpheres_def clearPaint_def
      clearOverlays_def highlightDomains_def Let_def split: option.splits)

lemma numberToString_104: "numberToString 104 = ''104''"
  by (simp add: numberToString_def decimalDigits.simps)

lemma residueTest_NaN:
  "\<not> residueTest NaN residueEnd a" "\<not> residueTest residueStart NaN a"
  by (cases residueStart; simp add: residueTest_def)+

lemma atoms_NaN_bound:
  "atoms chainOk (residueTest NaN residueEnd) s = []"
  "atoms chainOk (residueTest residueStart NaN) s = []"
  by (simp_all add: atoms_def residueTest_NaN)

lemma hover_without_host:
  assumes "\<not> Shiny w" and "getResidueInfo (ElementLoci (e # es)) = Some info"
  shows "hover (ElementLoci (e # es)) w = (Threw TypeError, w)"
  using assms by (simp add: hover_def)

section \<open>Hover in the two files\<close>

text \<open>
  In the file with all the commands, with the host present: a first element that has a
  unit and a first index within the unit's atoms sends the component id, the sequence id
  and the label made of the two with a plain space between, read at the atom that
  \<^verbatim>\<open>unit.elements\<close> has at the index. A first element without unit or first index, or
  with an index past the unit's atoms, an empty loci and a loci of another kind send
  nothing.
\<close>

lemma hover_emits_residue_label:
  "(Shiny w \<and> unit e = Some u \<and> start (indices e) = Some localIndex \<and>
    localIndex < length (elements u) \<longrightarrow>
      hover (ElementLoci (e # es)) w =
        (Returned,
         w\<lparr>inputs := inputs w @
           [(moduleNs w @ ''resi_aa'',
             StringValue (atoms_label_comp_id_value (atomicHierarchy (model u))
                            (elements u ! localIndex))),
            (moduleNs w @ ''resi_num'',
             NumberValue (residues_label_seq_id_value (atomicHierarchy (model u))
                            (residueAtomSegments_index (atomicHierarchy (model u))
                               (elements u ! localIndex)))),
            (moduleNs w @ ''resiinfo'',
             StringValue (atoms_label_comp_id_value (atomicHierarchy (model u))
                            (elements u ! localIndex) @ '' '' @
                          numberToString
                            (residues_label_seq_id_value (atomicHierarchy (model u))
                               (residueAtomSegments_index (atomicHierarchy (model u))
                                  (elements u ! localIndex)))))]\<rparr>)) \<and>
   (unit e = None \<or> start (indices e) = None \<or>
    (\<exists>u' i. unit e = Some u' \<and> start (indices e) = Some i \<and> length (elements u') \<le> i) \<longrightarrow>
      hover (ElementLoci (e # es)) w = (Returned, w)) \<and>
   hover (ElementLoci []) w = (Returned, w) \<and>
   hover OtherLoci w = (Returned, w)"
  by (auto simp: hover_def getResidueInfo_def Let_def split: option.splits)

lemma hover_at_glycine_104:
  "Shiny emptyWorld \<and>
   hover (ElementLoci [\<lparr>unit = Some exampleUnit, indices = \<lparr>start = Some 1\<rparr>\<rparr>]) emptyWorld =
     (Returned,
      emptyWorld\<lparr>inputs :=
        [(''viewer-resi_aa'', StringValue ''GLY''),
         (''viewer-resi_num'', NumberValue 104),
         (''viewer-resiinfo'', StringValue ''GLY 104'')]\<rparr>) \<and>
   hover (ElementLoci [\<lparr>unit = Some exampleUnit, indices = \<lparr>start = Some 2\<rparr>\<rparr>]) emptyWorld =
     (Returned, emptyWorld)"
proof -
  have host: "Shiny emptyWorld" "inputs emptyWorld = []" "moduleNs emptyWorld = ''viewer-''"
    by (simp_all add: emptyWorld_def moduleNs_def)
  from hover_emits_residue_label
    [of emptyWorld "\<lparr>unit = Some exampleUnit, indices = \<lparr>start = Some 1\<rparr>\<rparr>" exampleUnit 1 "[]"]
    hover_emits_residue_label
    [of emptyWorld "\<lparr>unit = Some exampleUnit, indices = \<lparr>start = Some 2\<rparr>\<rparr>" exampleUnit 1 "[]"]
  show ?thesis
    using host by (simp add: exampleUnit_def exampleModel_def numberToString_104)
qed

lemma hover_main_label:
  assumes "unit e = Some u" and "start (indices e) = Some idx" and "Shiny w"
  shows "hover_main (ElementLoci (e # es)) w =
     (Returned,
      w\<lparr>inputs := inputs w @
        [(''hoveredResidue'',
          StringValue (atoms_label_comp_id_value (atomicHierarchy (model u)) idx @ [CHR 0xA0] @
                       numberToString
                         (residues_label_seq_id_value (atomicHierarchy (model u))
                            (residueAtomSegments_index (atomicHierarchy (model u)) idx))))]\<rparr>)"
  using assms by (simp add: hover_main_def getResidueInfo_main_def Let_def)

lemma hover_main_without_unit:
  assumes "unit e = None"
  shows "hover_main (ElementLoci (e # es)) w = (Threw TypeError, w)"
  using assms by (simp add: hover_main_def getResidueInfo_main_def)

lemma hover_main_other_loci:
  "hover_main (ElementLoci []) w = (Returned, w)" "hover_main OtherLoci w = (Returned, w)"
  by (simp_all add: hover_main_def getResidueInfo_main_def)

section \<open>The claims\<close>

text \<open>
  Claim C1. When the colour string, after one leading \<open>#\<close> is dropped, parses to
  NaN, both \<open>highlightDomains\<close> and \<open>highlightResidueWithSphere\<close> return
  normally having written a warning: the world they leave differs from the one they found
  only in the console, so no layer is cached and no call reaches the library.
\<close>

theorem invalid_color_warns_and_aborts:
  assumes "isNaN (parseInt16 (hexOf colorHex))"
  shows "fst (highlightDomains residueStart residueEnd colorHex w) = Returned \<and>
         (\<exists>args. snd (highlightDomains residueStart residueEnd colorHex w) =
            w\<lparr>console := console w @ [Warn args]\<rparr>) \<and>
         overpaintLayers (snd (highlightDomains residueStart residueEnd colorHex w)) =
           overpaintLayers w \<and>
         calls (snd (highlightDomains residueStart residueEnd colorHex w)) = calls w \<and>
         fst (highlightResidueWithSphere positions colorHex w) = Returned \<and>
         (\<exists>args. snd (highlightResidueWithSphere positions colorHex w) =
            w\<lparr>console := console w @
               [Log [Str ''cleaned integer positions:'', IntArray (uniquePos positions)],
                Warn args]\<rparr>) \<and>
         overpaintLayers (snd (highlightResidueWithSphere positions colorHex w)) =
           overpaintLayers w \<and>
         calls (snd (highlightResidueWithSphere positions colorHex w)) = calls w"
  using assms
  by (auto simp: highlightDomains_def highlightResidueWithSphere_def emit_def Let_def
      split: option.splits)

text \<open>
  Claim C1 at the colour \<open>#zz\<close>, with a structure loaded and a layer cached.
\<close>

theorem invalid_color_warns_and_aborts_witness:
  "isNaN (parseInt16 (hexOf ''#zz'')) \<and>
   highlightDomains (Fin 1) (Fin 2) ''#zz'' paintedWorld =
     (Returned, paintedWorld\<lparr>console := [Warn [Str ''Invalid color:'', Str ''#zz'']]\<rparr>) \<and>
   highlightResidueWithSphere (JArr [JNum (Fin 2)]) ''#zz'' paintedWorld =
     (Returned, paintedWorld\<lparr>console :=
        [Log [Str ''cleaned integer positions:'', IntArray [2]],
         Warn [Str ''Invalid color:'', Str ''#zz'']]\<rparr>)"
proof -
  have nan: "isNaN (parseInt16 (hexOf ''#zz''))"
    by (simp add: hexOf_zz)
  have pos: "uniquePos (JArr [JNum (Fin 2)]) = [2]"
    by (simp add: uniquePos_def posNums_def)
  have con: "console paintedWorld = []"
    by (simp add: paintedWorld_def loadedWorld_def bareWorld_def emptyWorld_def)
  have dat: "currentStructureData paintedWorld = Some exampleStructure"
    by (rule currentStructureData_paintedWorld)
  from invalid_color_warns_and_aborts [OF nan, of "Fin 1" "Fin 2" paintedWorld "JArr [JNum (Fin 2)]"]
  show ?thesis
    using nan pos con dat
    by (auto simp: highlightDomains_def highlightResidueWithSphere_def emit_def hexOf_zz)
qed

text \<open>
  Claim C2, as the program has it: a call of \<open>highlightDomains\<close> that finds a
  structure and a colour that parses appends exactly one record at the end of the cache
  and keeps the records before it; a call that fails either guard leaves the cache as it
  was.
\<close>

theorem highlightDomains_appends_one_layer:
  "(currentStructureData w \<noteq> None \<and> \<not> isNaN (parseInt16 (hexOf colorHex)) \<longrightarrow>
      (\<exists>layer. overpaintLayers (snd (highlightDomains residueStart residueEnd colorHex w)) =
         overpaintLayers w @ [layer])) \<and>
   (currentStructureData w = None \<or> isNaN (parseInt16 (hexOf colorHex)) \<longrightarrow>
      overpaintLayers (snd (highlightDomains residueStart residueEnd colorHex w)) =
        overpaintLayers w)"
proof (intro conjI impI)
  assume "currentStructureData w \<noteq> None \<and> \<not> isNaN (parseInt16 (hexOf colorHex))"
  then obtain s where "currentStructureData w = Some s"
    and "\<not> isNaN (parseInt16 (hexOf colorHex))"
    by auto
  from highlightDomains_pushes [OF this]
  show "\<exists>layer. overpaintLayers (snd (highlightDomains residueStart residueEnd colorHex w)) =
         overpaintLayers w @ [layer]"
    by simp
next
  assume "currentStructureData w = None \<or> isNaN (parseInt16 (hexOf colorHex))"
  from highlightDomains_aborts [OF this]
  obtain args where "highlightDomains residueStart residueEnd colorHex w =
     (Returned, w\<lparr>console := console w @ [Warn args]\<rparr>)"
    by blast
  then show "overpaintLayers (snd (highlightDomains residueStart residueEnd colorHex w)) =
        overpaintLayers w"
    by simp
qed

text \<open>
  Claim C2 as amended, at a colour that parses and at one that does not.
\<close>

theorem highlightDomains_appends_one_layer_witness:
  "currentStructureData paintedWorld \<noteq> None \<and>
   \<not> isNaN (parseInt16 (hexOf ''#ff0000'')) \<and>
   (\<exists>layer. overpaintLayers (snd (highlightDomains (Fin 2) (Fin 3) ''#ff0000'' paintedWorld)) =
      overpaintLayers paintedWorld @ [layer]) \<and>
   isNaN (parseInt16 (hexOf ''#zz'')) \<and>
   overpaintLayers (snd (highlightDomains (Fin 2) (Fin 3) ''#zz'' paintedWorld)) =
     overpaintLayers paintedWorld"
  using highlightDomains_appends_one_layer [of paintedWorld "''#ff0000''" "Fin 2" "Fin 3"]
    highlightDomains_appends_one_layer [of paintedWorld "''#zz''" "Fin 2" "Fin 3"]
  by (simp add: currentStructureData_paintedWorld hexOf_zz hexOf_red)

text \<open>
  Claim C2 as stated fails: a call with the colour \<open>#zz\<close> appends nothing, the
  cache keeps its one record.
\<close>

theorem highlightDomains_invalid_color_appends_nothing:
  "overpaintLayers (snd (highlightDomains (Fin 2) (Fin 3) ''#zz'' paintedWorld)) =
     overpaintLayers paintedWorld \<and>
   length (overpaintLayers (snd (highlightDomains (Fin 2) (Fin 3) ''#zz'' paintedWorld))) = 1"
  by (simp add: highlightDomains_def currentStructureData_paintedWorld hexOf_zz emit_def)
    (simp add: paintedWorld_def)

text \<open>
  Claim C3, as the program has it. \<open>clearOverlays\<close> and \<open>clearPaint\<close> leave an
  empty overpaint layer list, whatever it held before; they empty it first, so this holds
  also when they stop at a missing cartoon node, and they complete exactly when the node
  is there. \<open>resetCamera\<close> resets the camera, writes its line to the console and
  changes nothing else: the list it leaves is the list it found.
\<close>

theorem clear_commands_empty_the_cache:
  "overpaintLayers (snd (clearOverlays w)) = [] \<and>
   overpaintLayers (snd (clearPaint w)) = [] \<and>
   (fst (clearOverlays w) = Returned) = cartoon w \<and>
   (fst (clearPaint w) = Returned) = cartoon w \<and>
   resetCamera w =
     (Returned,
      w\<lparr>calls := calls w @ [CameraReset],
        console := console w @ [Log [Str ''Camera view reset to show entire structure'']]\<rparr>) \<and>
   overpaintLayers (snd (resetCamera w)) = overpaintLayers w"
  using clear_cache [of w] outcomes(4,5) [of w] resetCamera_eq [of w]
  by simp

text \<open>
  Claim C3 as stated fails for \<open>resetCamera\<close>: with one layer cached, the layer is
  still there when the command has returned.
\<close>

theorem resetCamera_keeps_the_cache:
  "fst (resetCamera paintedWorld) = Returned \<and>
   overpaintLayers (snd (resetCamera paintedWorld)) =
     [\<lparr>bundle = [0], color = Fin 255, clear = False\<rparr>]"
  by (simp add: resetCamera_def call_def emit_def paintedWorld_def loadedWorld_def
      bareWorld_def emptyWorld_def)

text \<open>
  Claim C4. Flattening lists the numbers of the input in order, whatever the nesting. The
  cleaned list holds exactly the floors of the finite ones, each once, in ascending order.
  With a cleaned list that is not empty, a colour that parses and a structure, a call of
  \<open>highlightResidueWithSphere\<close> logs the list and commits one builder, whose residue
  test is that list; no call ever commits anything else. When the list is empty the call
  logs it, warns and returns, and nothing else changes.
\<close>

theorem cleaned_positions_distinct_sorted:
  "flatten (JNum n) = [n] \<and> flatten (JArr arr) = concat (map flatten arr) \<and>
   set (uniquePos positions) = {\<lfloor>q\<rfloor> | q. Fin q \<in> set (flatten positions)} \<and>
   distinct (uniquePos positions) \<and> sorted (uniquePos positions) \<and>
   (uniquePos positions \<noteq> [] \<and> \<not> isNaN (parseInt16 (hexOf colorHex)) \<and>
    structures w = structCell # others \<and> obj (cell structCell) = Some ob \<longrightarrow>
      highlightResidueWithSphere positions colorHex w =
        (Returned,
         w\<lparr>console := console w @
              [Log [Str ''cleaned integer positions:'', IntArray (uniquePos positions)]],
            calls := calls w @
              [Commit [To (ToCell (cell structCell)),
                 Apply (CreateGroup ''mutations'') (Some ''mutations'') [],
                 Apply (StructureSelectionFromExpression
                          (atomGroups ''A'' (uniquePos positions) ''CA'')) None [],
                 Apply (StructureRepresentation3D
                          (createStructureRepresentationParams (data ob)
                             ''ball-and-stick'' ''uniform'' (parseInt16 (hexOf colorHex))
                             ''uniform'' 10))
                   None [''mutations-group'']]]\<rparr>)) \<and>
   (calls (snd (highlightResidueWithSphere positions colorHex w)) = calls w \<or>
    (\<exists>c params. calls (snd (highlightResidueWithSphere positions colorHex w)) =
       calls w @
         [Commit [To (ToCell c),
            Apply (CreateGroup ''mutations'') (Some ''mutations'') [],
            Apply (StructureSelectionFromExpression
                     (atomGroups ''A'' (uniquePos positions) ''CA'')) None [],
            Apply (StructureRepresentation3D params) None [''mutations-group'']]])) \<and>
   (uniquePos positions = [] \<longrightarrow>
      highlightResidueWithSphere positions colorHex w =
        (Returned,
         w\<lparr>console := console w @
            [Log [Str ''cleaned integer positions:'', IntArray []],
             Warn [Str ''No valid positions after cleaning; aborting highlight.'']]\<rparr>))"
  using flatten_JArr [of arr] set_uniquePos [of positions] distinct_uniquePos [of positions]
    sorted_uniquePos [of positions] highlightResidueWithSphere_calls [of positions colorHex w]
    highlightResidueWithSphere_no_positions [of positions colorHex w]
    highlightResidueWithSphere_commits [of positions colorHex w structCell others ob]
  by simp

text \<open>
  Claim C4 on the loaded example structure: an input with a duplicate, a fraction and a
  negative fraction, whose cleaned list becomes the residue test of the committed query,
  and an input with no finite number, on which nothing is committed.
\<close>

theorem cleaned_positions_distinct_sorted_witness:
  "uniquePos (JArr [JNum (Fin 5), JArr [JNum (Fin (7 / 2)), JNum (Fin 5)], JNum (Fin (- 1 / 2))]) =
     [- 1, 3, 5] \<and>
   \<not> isNaN (parseInt16 (hexOf ''#ff0000'')) \<and>
   structures loadedWorld = [\<lparr>cell = \<lparr>obj = Some \<lparr>data = exampleStructure\<rparr>\<rparr>\<rparr>] \<and>
   highlightResidueWithSphere
       (JArr [JNum (Fin 5), JArr [JNum (Fin (7 / 2)), JNum (Fin 5)], JNum (Fin (- 1 / 2))])
       ''#ff0000'' loadedWorld =
     (Returned,
      loadedWorld\<lparr>console := [Log [Str ''cleaned integer positions:'', IntArray [- 1, 3, 5]]],
        calls :=
          [Commit [To (ToCell \<lparr>obj = Some \<lparr>data = exampleStructure\<rparr>\<rparr>),
             Apply (CreateGroup ''mutations'') (Some ''mutations'') [],
             Apply (StructureSelectionFromExpression (atomGroups ''A'' [- 1, 3, 5] ''CA''))
               None [],
             Apply (StructureRepresentation3D
                      (createStructureRepresentationParams exampleStructure
                         ''ball-and-stick'' ''uniform'' (Fin 16711680) ''uniform'' 10))
               None [''mutations-group'']]]\<rparr>) \<and>
   uniquePos (JArr [JNum NaN, JArr [JNum PosInfinity]]) = [] \<and>
   highlightResidueWithSphere (JArr [JNum NaN, JArr [JNum PosInfinity]]) ''#ff0000'' loadedWorld =
     (Returned,
      loadedWorld\<lparr>console :=
         [Log [Str ''cleaned integer positions:'', IntArray []],
          Warn [Str ''No valid positions after cleaning; aborting highlight.'']]\<rparr>)"
proof -
  have three: "uniquePos (JArr [JNum (Fin 5), JArr [JNum (Fin (7 / 2)), JNum (Fin 5)],
      JNum (Fin (- 1 / 2))]) = [- 1, 3, 5]"
    by (simp add: uniquePos_def posNums_def)
  have empty: "uniquePos (JArr [JNum NaN, JArr [JNum PosInfinity]]) = []"
    by (simp add: uniquePos_def posNums_def)
  have world: "console loadedWorld = []" "calls loadedWorld = []"
    "structures loadedWorld = [\<lparr>cell = \<lparr>obj = Some \<lparr>data = exampleStructure\<rparr>\<rparr>\<rparr>]"
    by (simp_all add: loadedWorld_def bareWorld_def emptyWorld_def)
  from cleaned_positions_distinct_sorted
    [of undefined "[]"
      "JArr [JNum (Fin 5), JArr [JNum (Fin (7 / 2)), JNum (Fin 5)], JNum (Fin (- 1 / 2))]"
      "''#ff0000''" loadedWorld "\<lparr>cell = \<lparr>obj = Some \<lparr>data = exampleStructure\<rparr>\<rparr>\<rparr>" "[]"
      "\<lparr>data = exampleStructure\<rparr>"]
    cleaned_positions_distinct_sorted
    [of undefined "[]" "JArr [JNum NaN, JArr [JNum PosInfinity]]" "''#ff0000''" loadedWorld
      undefined undefined undefined]
  show ?thesis
    using three empty world by (simp add: hexOf_red)
qed

text \<open>
  Claim C5. A call of \<open>highlightDomains\<close> that passes its guards and finds the
  cartoon node returns having committed one overpaint transform on the cartoon
  representation, and the layers it passes are the cache as the call leaves it, record for
  record. No call commits anything else, and a call that fails a guard or finds no cartoon
  node commits nothing. Every command and every message handler leaves the cache as it
  was, empties it, or appends one record at its end.
\<close>

theorem layers_applied_in_cache_order:
  "(currentStructureData w \<noteq> None \<and> \<not> isNaN (parseInt16 (hexOf colorHex)) \<and> cartoon w \<longrightarrow>
      fst (highlightDomains residueStart residueEnd colorHex w) = Returned \<and>
      calls (snd (highlightDomains residueStart residueEnd colorHex w)) =
        calls w @
          [Commit [To (ToRef cartoonRef),
             Apply (OverpaintStructureRepresentation3DFromBundle
                      (overpaintLayers (snd (highlightDomains residueStart residueEnd colorHex w))))
               None []]]) \<and>
   (calls (snd (highlightDomains residueStart residueEnd colorHex w)) = calls w \<or>
    calls (snd (highlightDomains residueStart residueEnd colorHex w)) =
      calls w @
          [Commit [To (ToRef cartoonRef),
             Apply (OverpaintStructureRepresentation3DFromBundle
                      (overpaintLayers (snd (highlightDomains residueStart residueEnd colorHex w))))
               None []]]) \<and>
   (currentStructureData w = None \<or> isNaN (parseInt16 (hexOf colorHex)) \<or> \<not> cartoon w \<longrightarrow>
      calls (snd (highlightDomains residueStart residueEnd colorHex w)) = calls w) \<and>
   (overpaintLayers (snd (run c w)) = overpaintLayers w \<or>
    overpaintLayers (snd (run c w)) = [] \<or>
    (\<exists>layer. overpaintLayers (snd (run c w)) = overpaintLayers w @ [layer])) \<and>
   (overpaintLayers (snd (onMessage answers m w)) = overpaintLayers w \<or>
    overpaintLayers (snd (onMessage answers m w)) = [] \<or>
    (\<exists>layer. overpaintLayers (snd (onMessage answers m w)) = overpaintLayers w @ [layer]))"
proof (intro conjI impI)
  assume "currentStructureData w \<noteq> None \<and> \<not> isNaN (parseInt16 (hexOf colorHex)) \<and> cartoon w"
  then obtain s where "currentStructureData w = Some s"
    and "\<not> isNaN (parseInt16 (hexOf colorHex))" and "cartoon w"
    by auto
  note paints = highlightDomains_paints [OF this, of residueStart residueEnd]
  from paints show "fst (highlightDomains residueStart residueEnd colorHex w) = Returned"
    by simp
  from paints show "calls (snd (highlightDomains residueStart residueEnd colorHex w)) =
        calls w @
          [Commit [To (ToRef cartoonRef),
             Apply (OverpaintStructureRepresentation3DFromBundle
                      (overpaintLayers (snd (highlightDomains residueStart residueEnd colorHex w))))
               None []]]"
    by simp
next
  show "calls (snd (highlightDomains residueStart residueEnd colorHex w)) = calls w \<or>
    calls (snd (highlightDomains residueStart residueEnd colorHex w)) =
      calls w @
          [Commit [To (ToRef cartoonRef),
             Apply (OverpaintStructureRepresentation3DFromBundle
                      (overpaintLayers (snd (highlightDomains residueStart residueEnd colorHex w))))
               None []]]"
    by (rule highlightDomains_calls)
next
  assume "currentStructureData w = None \<or> isNaN (parseInt16 (hexOf colorHex)) \<or> \<not> cartoon w"
  then show "calls (snd (highlightDomains residueStart residueEnd colorHex w)) = calls w"
    by (auto simp: highlightDomains_def emit_def Let_def split: option.splits)
next
  show "overpaintLayers (snd (run c w)) = overpaintLayers w \<or>
    overpaintLayers (snd (run c w)) = [] \<or>
    (\<exists>layer. overpaintLayers (snd (run c w)) = overpaintLayers w @ [layer])"
    by (rule run_cache)
next
  show "overpaintLayers (snd (onMessage answers m w)) = overpaintLayers w \<or>
    overpaintLayers (snd (onMessage answers m w)) = [] \<or>
    (\<exists>layer. overpaintLayers (snd (onMessage answers m w)) = overpaintLayers w @ [layer])"
    by (rule onMessage_cache)
qed

text \<open>
  Claim C5 with one layer cached and the cartoon in place: the second layer is applied
  after the first. Without the cartoon node the same call caches its layer and commits
  nothing.
\<close>

theorem layers_applied_in_cache_order_witness:
  "currentStructureData paintedWorld \<noteq> None \<and>
   \<not> isNaN (parseInt16 (hexOf ''#ff0000'')) \<and> cartoon paintedWorld \<and>
   fst (highlightDomains (Fin 2) (Fin 3) ''#ff0000'' paintedWorld) = Returned \<and>
   overpaintLayers (snd (highlightDomains (Fin 2) (Fin 3) ''#ff0000'' paintedWorld)) =
     [\<lparr>bundle = [0], color = Fin 255, clear = False\<rparr>,
      \<lparr>bundle = [1, 2], color = Fin 16711680, clear = False\<rparr>] \<and>
   calls (snd (highlightDomains (Fin 2) (Fin 3) ''#ff0000'' paintedWorld)) =
     [Commit [To (ToRef cartoonRef),
        Apply (OverpaintStructureRepresentation3DFromBundle
                 [\<lparr>bundle = [0], color = Fin 255, clear = False\<rparr>,
                  \<lparr>bundle = [1, 2], color = Fin 16711680, clear = False\<rparr>])
          None []]] \<and>
   \<not> cartoon bareWorld \<and>
   calls (snd (highlightDomains (Fin 2) (Fin 3) ''#ff0000'' bareWorld)) = []"
proof -
  have valid: "\<not> isNaN (parseInt16 (hexOf ''#ff0000''))"
    by (simp add: hexOf_red)
  have layers: "overpaintLayers (snd (highlightDomains (Fin 2) (Fin 3) ''#ff0000'' paintedWorld)) =
     [\<lparr>bundle = [0], color = Fin 255, clear = False\<rparr>,
      \<lparr>bundle = [1, 2], color = Fin 16711680, clear = False\<rparr>]"
    using highlightDomains_pushes [OF currentStructureData_paintedWorld valid, of "Fin 2" "Fin 3"]
    by (simp add: hexOf_red atoms_exampleStructure_2_3) (simp add: paintedWorld_def)
  have none: "calls paintedWorld = []" "calls bareWorld = []"
    by (simp_all add: paintedWorld_def loadedWorld_def bareWorld_def emptyWorld_def)
  from layers_applied_in_cache_order
    [of paintedWorld "''#ff0000''" "Fin 2" "Fin 3" ClearPaint undefined MsgClearPaint]
    layers_applied_in_cache_order
    [of bareWorld "''#ff0000''" "Fin 2" "Fin 3" ClearPaint undefined MsgClearPaint]
  show ?thesis
    using layers none valid
    by (simp add: currentStructureData_paintedWorld cartoon_worlds)
qed



text \<open>
  Claim C7 fails in \<^verbatim>\<open>src/main.ts\<close>. Hovering the last atom of a one-chain
  structure, with the host present, its subscriber sends the two ids with U+00A0 between
  them, which is not the label with a space that the other file sends for the same loci.
  On the unit of a later chain it reads the ids at the first index taken as an atom of the
  model, and sends residue 102 where the hovered atom is of residue 104.
\<close>

theorem hover_main_sends_another_label:
  "Shiny emptyWorld \<and>
   hover_main (ElementLoci [\<lparr>unit = Some wholeUnit, indices = \<lparr>start = Some 5\<rparr>\<rparr>]) emptyWorld =
     (Returned,
      emptyWorld\<lparr>inputs := [(''hoveredResidue'', StringValue (''GLY'' @ [CHR 0xA0] @ ''104''))]\<rparr>) \<and>
   ''GLY'' @ [CHR 0xA0] @ ''104'' \<noteq> ''GLY 104'' \<and>
   hover (ElementLoci [\<lparr>unit = Some wholeUnit, indices = \<lparr>start = Some 5\<rparr>\<rparr>]) emptyWorld =
     (Returned,
      emptyWorld\<lparr>inputs :=
        [(''viewer-resi_aa'', StringValue ''GLY''),
         (''viewer-resi_num'', NumberValue 104),
         (''viewer-resiinfo'', StringValue ''GLY 104'')]\<rparr>) \<and>
   hover_main (ElementLoci [\<lparr>unit = Some exampleUnit, indices = \<lparr>start = Some 1\<rparr>\<rparr>]) emptyWorld =
     (Returned,
      emptyWorld\<lparr>inputs := [(''hoveredResidue'', StringValue (''GLY'' @ [CHR 0xA0] @ ''102''))]\<rparr>) \<and>
   hover (ElementLoci [\<lparr>unit = Some exampleUnit, indices = \<lparr>start = Some 1\<rparr>\<rparr>]) emptyWorld =
     (Returned,
      emptyWorld\<lparr>inputs :=
        [(''viewer-resi_aa'', StringValue ''GLY''),
         (''viewer-resi_num'', NumberValue 104),
         (''viewer-resiinfo'', StringValue ''GLY 104'')]\<rparr>)"
proof -
  have host: "Shiny emptyWorld" "inputs emptyWorld = []" "moduleNs emptyWorld = ''viewer-''"
    by (simp_all add: emptyWorld_def moduleNs_def)
  have texts: "numberToString 104 = ''104''" "numberToString 102 = ''102''"
    by (simp_all add: numberToString_def decimalDigits.simps)
  show ?thesis
    using host
    by (simp add: hover_main_def getResidueInfo_main_def hover_def getResidueInfo_def
        wholeUnit_def exampleUnit_def exampleModel_def texts)
qed

text \<open>
  Claim C8 fails for \<open>highlightResidueWithSphere\<close>: with the viewer up and no
  structure loaded, a valid position and a valid colour make it throw a TypeError, called
  directly or through its message handler, where \<open>highlightDomains\<close> and
  \<open>zoomToResidue\<close> warn and return.
\<close>

theorem highlightResidueWithSphere_throws_without_structure:
  "highlightResidueWithSphere (JArr [JNum (Fin 5)]) ''#ff0000'' emptyWorld =
     (Threw TypeError,
      emptyWorld\<lparr>console := [Log [Str ''cleaned integer positions:'', IntArray [5]]]\<rparr>) \<and>
   onMessage \<lparr>viewerOk = True, loaded = [], polymerFound = False\<rparr>
       (MsgHighlightResidueWithSphere (JNum (Fin 5)) None) emptyWorld =
     (Threw TypeError,
      emptyWorld\<lparr>console := [Log [Str ''cleaned integer positions:'', IntArray [5]]]\<rparr>) \<and>
   highlightDomains (Fin 5) (Fin 5) ''#ff0000'' emptyWorld =
     (Returned, emptyWorld\<lparr>console := [Warn [Str ''No Structure loaded'']]\<rparr>) \<and>
   zoomToResidue (Fin 5) ''A'' emptyWorld =
     (Returned, emptyWorld\<lparr>console := [Warn [Str ''No structure loaded'']]\<rparr>)"
proof -
  have five: "uniquePos (JArr [JNum (Fin 5)]) = [5]" "uniquePos (JArr [JArr [JNum (Fin 5)]]) = [5]"
    by (simp_all add: uniquePos_def posNums_def)
  have none: "structures emptyWorld = []" "console emptyWorld = []" "plugin emptyWorld"
    by (simp_all add: emptyWorld_def)
  have nodata: "currentStructureData emptyWorld = None"
    by (simp add: currentStructureData_def none)
  show ?thesis
    by (simp add: highlightResidueWithSphere_def highlightDomains_def zoomToResidue_def
        five none nodata hexOf_red emit_def orElse_def)
qed

text \<open>
  Claim C9 fails where the cartoon node is missing. With a structure current, no cartoon
  and a sphere group made by \<open>highlightResidueWithSphere\<close>, both clear commands throw at
  \<^verbatim>\<open>.to(cartoonRef)\<close>: the world is left as it was, so no overpaint transform is
  committed and \<open>clearOverlays\<close> never commits the deletion of \<open>mutations\<close>.
\<close>

theorem clearOverlays_without_cartoon_keeps_mutations:
  "calls spheresWorld =
     [Commit [To (ToCell \<lparr>obj = Some \<lparr>data = exampleStructure\<rparr>\<rparr>),
        Apply (CreateGroup ''mutations'') (Some ''mutations'') [],
        Apply (StructureSelectionFromExpression (atomGroups ''A'' [2] ''CA'')) None [],
        Apply (StructureRepresentation3D
                 (createStructureRepresentationParams exampleStructure
                    ''ball-and-stick'' ''uniform'' (Fin 16711680) ''uniform'' 10))
          None [''mutations-group'']]] \<and>
   clearOverlays spheresWorld = (Threw (NodeNotFound cartoonRef), spheresWorld) \<and>
   clearPaint spheresWorld = (Threw (NodeNotFound cartoonRef), spheresWorld)"
proof -
  have two: "uniquePos (JArr [JNum (Fin 2)]) = [2]"
    by (simp add: uniquePos_def posNums_def)
  have bare: "structures bareWorld = [\<lparr>cell = \<lparr>obj = Some \<lparr>data = exampleStructure\<rparr>\<rparr>\<rparr>]"
    "calls bareWorld = []" "overpaintLayers bareWorld = []" "\<not> cartoon bareWorld"
    by (simp_all add: bareWorld_def emptyWorld_def)
  have valid: "\<not> isNaN (parseInt16 (hexOf ''#ff0000''))"
    by (simp add: hexOf_red)
  have world: "spheresWorld =
     bareWorld\<lparr>console := console bareWorld @
          [Log [Str ''cleaned integer positions:'', IntArray [2]]],
        calls :=
          [Commit [To (ToCell \<lparr>obj = Some \<lparr>data = exampleStructure\<rparr>\<rparr>),
             Apply (CreateGroup ''mutations'') (Some ''mutations'') [],
             Apply (StructureSelectionFromExpression (atomGroups ''A'' [2] ''CA'')) None [],
             Apply (StructureRepresentation3D
                      (createStructureRepresentationParams exampleStructure
                         ''ball-and-stick'' ''uniform'' (Fin 16711680) ''uniform'' 10))
               None [''mutations-group'']]]\<rparr>"
    using highlightResidueWithSphere_commits
      [of "JArr [JNum (Fin 2)]" "''#ff0000''" bareWorld
        "\<lparr>cell = \<lparr>obj = Some \<lparr>data = exampleStructure\<rparr>\<rparr>\<rparr>" "[]" "\<lparr>data = exampleStructure\<rparr>"]
    by (simp add: spheresWorld_def two bare valid hexOf_red)
  have still: "\<not> cartoon spheresWorld" "overpaintLayers spheresWorld = []"
    by (simp_all add: world bare)
  have same: "spheresWorld\<lparr>overpaintLayers := []\<rparr> = spheresWorld"
    using still(2) by (cases spheresWorld) simp
  show ?thesis
    using clear_without_cartoon [OF still(1)] by (simp add: same) (simp add: world)
qed

text \<open>
  Claim C10. Two inputs that flatten to the same numbers, in any order and nesting, give
  the same cleaned list; the same holds when the numbers recur a different number of
  times.
\<close>

theorem cleaning_ignores_order_nesting_duplicates:
  "(mset (flatten a) = mset (flatten b) \<longrightarrow> uniquePos a = uniquePos b) \<and>
   (set (flatten a) = set (flatten b) \<longrightarrow> uniquePos a = uniquePos b)"
proof -
  have same: "uniquePos a = uniquePos b" if "set (flatten a) = set (flatten b)"
    using that by (simp add: uniquePos_sorted_list_of_set set_posNums)
  moreover have "set (flatten a) = set (flatten b)" if "mset (flatten a) = mset (flatten b)"
    using that by (rule mset_eq_setD)
  ultimately show ?thesis
    by blast
qed

text \<open>
  Claim C10 at two nestings of 5, 3.5 and 5, and at 3.5 and 5 without the repetition.
\<close>

theorem cleaning_ignores_order_nesting_duplicates_witness:
  "mset (flatten (JArr [JNum (Fin 5), JArr [JNum (Fin (7 / 2)), JNum (Fin 5)]])) =
     mset (flatten (JArr [JArr [JArr [JNum (Fin 5)], JNum (Fin (7 / 2))], JNum (Fin 5)])) \<and>
   uniquePos (JArr [JNum (Fin 5), JArr [JNum (Fin (7 / 2)), JNum (Fin 5)]]) =
     uniquePos (JArr [JArr [JArr [JNum (Fin 5)], JNum (Fin (7 / 2))], JNum (Fin 5)]) \<and>
   set (flatten (JArr [JNum (Fin 5), JArr [JNum (Fin (7 / 2)), JNum (Fin 5)]])) =
     set (flatten (JArr [JNum (Fin (7 / 2)), JNum (Fin 5)])) \<and>
   uniquePos (JArr [JNum (Fin 5), JArr [JNum (Fin (7 / 2)), JNum (Fin 5)]]) =
     uniquePos (JArr [JNum (Fin (7 / 2)), JNum (Fin 5)])"
proof -
  have m: "mset (flatten (JArr [JNum (Fin 5), JArr [JNum (Fin (7 / 2)), JNum (Fin 5)]])) =
     mset (flatten (JArr [JArr [JArr [JNum (Fin 5)], JNum (Fin (7 / 2))], JNum (Fin 5)]))"
    by simp
  have s: "set (flatten (JArr [JNum (Fin 5), JArr [JNum (Fin (7 / 2)), JNum (Fin 5)]])) =
     set (flatten (JArr [JNum (Fin (7 / 2)), JNum (Fin 5)]))"
    by auto
  from cleaning_ignores_order_nesting_duplicates
    [of "JArr [JNum (Fin 5), JArr [JNum (Fin (7 / 2)), JNum (Fin 5)]]"
        "JArr [JArr [JArr [JNum (Fin 5)], JNum (Fin (7 / 2))], JNum (Fin 5)]"]
    cleaning_ignores_order_nesting_duplicates
    [of "JArr [JNum (Fin 5), JArr [JNum (Fin (7 / 2)), JNum (Fin 5)]]"
        "JArr [JNum (Fin (7 / 2)), JNum (Fin 5)]"]
  show ?thesis
    using m s by blast
qed

end
